theory Spec2Isabelle
  imports Complex_Main
begin

section \<open>Strings and the regular expressions of renderer.ts\<close>

text \<open>
  A JavaScript string is a sequence of UTF-16 code units. The model uses \<^typ>\<open>string\<close>,
  one \<^typ>\<open>char\<close> per code unit, so it covers the code units below 256. Numbers are
  JavaScript doubles in the source; counts are modelled as \<^typ>\<open>int\<close> (exact below
  \<open>2^53\<close>) and prices as \<^typ>\<open>real\<close>, so rounding is not modelled. A
  \<open>Record<string, T>\<close> is an association list in insertion order, read with
  \<^const>\<open>map_of\<close>; the members a plain object inherits from \<open>Object.prototype\<close>
  (a key such as \<open>constructor\<close>) and the numeric-first order of its keys are not
  modelled.
\<close>

definition is_digit :: "char \<Rightarrow> bool" where
  \<comment> \<open>the class \<open>\d\<close>, also written \<open>0-9\<close>\<close>
  "is_digit c = (c \<in> set ''0123456789'')"

definition is_space :: "char \<Rightarrow> bool" where
  \<comment> \<open>the class \<open>\s\<close>, which is also what \<open>trim\<close> strips: tab, line feed,
     vertical tab, form feed, carriage return, space and no-break space\<close>
  "is_space c = (c \<in> set [CHR 0x09, CHR 0x0A, CHR 0x0B, CHR 0x0C, CHR 0x0D, CHR '' '', CHR 0xA0])"

definition is_alnum :: "char \<Rightarrow> bool" where
  \<comment> \<open>the class \<open>[A-Za-z0-9]\<close>\<close>
  "is_alnum c =
     (c \<in> set ''ABCDEFGHIJKLMNOPQRSTUVWXYZabcdefghijklmnopqrstuvwxyz0123456789'')"

definition is_word :: "char \<Rightarrow> bool" where
  \<comment> \<open>the class \<open>\w\<close>\<close>
  "is_word c = (is_alnum c \<or> c = CHR ''_'')"

definition is_name_char :: "char \<Rightarrow> bool" where
  \<comment> \<open>the class \<open>[\w| ,']\<close> of \<open>lineWithSetCodes\<close>\<close>
  "is_name_char c = (is_word c \<or> c \<in> set [CHR ''|'', CHR '' '', CHR '','', CHR 0x27])"

definition is_dot :: "char \<Rightarrow> bool" where
  \<comment> \<open>\<open>.\<close> without the \<open>s\<close> flag: anything but a line terminator\<close>
  "is_dot c = (c \<notin> set [CHR 0x0A, CHR 0x0D])"

definition is_heading_start :: "char \<Rightarrow> bool" where
  \<comment> \<open>the negated class \<open>[^[0-9|#]\<close> of \<open>headingMatchRE\<close>: its members are
     \<open>[\<close>, the digits, \<open>|\<close> and the comment delimiter\<close>
  "is_heading_start c = (\<not> (c = CHR ''['' \<or> is_digit c \<or> c = CHR ''|'' \<or> c = CHR ''#''))"

text \<open>
  The regular expressions of the source use only single character classes, the greedy
  quantifiers \<open>*\<close> and \<open>+\<close> over a class, and the anchor \<open>$\<close>. A pattern is a list
  of such items; \<open>rmatch\<close> is the backtracking matcher at one position, trying the
  longer repetition first as the JavaScript engine does. It returns the text each item
  consumed, so capture group \<open>k\<close> is read off by position.
\<close>

datatype ritem =
    Single "char \<Rightarrow> bool"
  | Star "char \<Rightarrow> bool"
  | Plus "char \<Rightarrow> bool"
  | Eol

fun grow :: "char \<Rightarrow> string list \<Rightarrow> string list" where
  "grow c [] = []"
| "grow c (g # gs) = (c # g) # gs"

fun rmatch :: "ritem list \<Rightarrow> string \<Rightarrow> string list option" where
  "rmatch [] s = Some []"
| "rmatch (Eol # r) s = (if s = [] then map_option ((#) []) (rmatch r s) else None)"
| "rmatch (Single p # r) [] = None"
| "rmatch (Single p # r) (c # cs) =
     (if p c then map_option ((#) [c]) (rmatch r cs) else None)"
| "rmatch (Plus p # r) [] = None"
| "rmatch (Plus p # r) (c # cs) =
     (if p c then map_option (grow c) (rmatch (Star p # r) cs) else None)"
| "rmatch (Star p # r) [] = map_option ((#) []) (rmatch r [])"
| "rmatch (Star p # r) (c # cs) =
     (if p c
      then (case rmatch (Star p # r) cs of
              Some gs \<Rightarrow> Some (grow c gs)
            | None \<Rightarrow> map_option ((#) []) (rmatch r (c # cs)))
      else map_option ((#) []) (rmatch r (c # cs)))"

text \<open>
  An unanchored pattern is tried at every position from the left; the result is the
  text before the match and the groups of the match.
\<close>

fun rsearch :: "ritem list \<Rightarrow> string \<Rightarrow> (string \<times> string list) option" where
  "rsearch pat [] = map_option (Pair []) (rmatch pat [])"
| "rsearch pat (c # cs) =
     (case rmatch pat (c # cs) of
        Some gs \<Rightarrow> Some ([], gs)
      | None \<Rightarrow> map_option (\<lambda>(pre, gs). (c # pre, gs)) (rsearch pat cs))"

definition COMMENT_DELIMITER :: char where
  "COMMENT_DELIMITER = CHR ''#''"

definition DEFAULT_SECTION_NAME :: string where
  "DEFAULT_SECTION_NAME = ''Deck:''"

definition lineMatchRE :: "ritem list" where
  \<comment> \<open>\<open>/(\d+)\s(.*)/\<close>: group 1 is item 0, group 2 is item 2\<close>
  "lineMatchRE = [Plus is_digit, Single is_space, Star is_dot]"

definition setCodesRE :: "ritem list" where
  \<comment> \<open>\<open>/(\([A-Za-z0-9]{3}\)\s\d+)/\<close>\<close>
  "setCodesRE =
     [Single (\<lambda>c. c = CHR ''(''), Single is_alnum, Single is_alnum, Single is_alnum,
      Single (\<lambda>c. c = CHR '')''), Single is_space, Plus is_digit]"

definition lineWithSetCodes :: "ritem list" where
  \<comment> \<open>\<open>/(\d+)\s+([\w| ,']*)\s+(\([A-Za-z0-9]{3}\)\s\d+)/\<close>\<close>
  "lineWithSetCodes =
     [Plus is_digit, Plus is_space, Star is_name_char, Plus is_space] @ setCodesRE"

definition blankLineRE :: "ritem list" where
  \<comment> \<open>\<open>/^\s+$/\<close>, matched at position 0\<close>
  "blankLineRE = [Plus is_space, Eol]"

definition headingMatchRE :: "ritem list" where
  \<comment> \<open>\<open>new RegExp("^[^[0-9|" + COMMENT_DELIMITER + "]")\<close>, matched at position 0\<close>
  "headingMatchRE = [Single is_heading_start]"

definition numberRE :: "ritem list" where
  \<comment> \<open>\<open>/\d+$/\<close>: no \<open>^\<close>, so it is searched for\<close>
  "numberRE = [Plus is_digit, Eol]"

definition js_trim :: "string \<Rightarrow> string" where
  "js_trim s = rev (dropWhile is_space (rev (dropWhile is_space s)))"

fun js_split :: "char \<Rightarrow> string \<Rightarrow> string list" where
  "js_split d [] = [[]]"
| "js_split d (c # cs) = (if c = d then [] # js_split d cs else grow c (js_split d cs))"

definition startsWith :: "string \<Rightarrow> string \<Rightarrow> bool" where
  "startsWith s p = (take (length p) s = p)"

definition replace_first :: "ritem list \<Rightarrow> string \<Rightarrow> string" where
  \<comment> \<open>\<open>s.replace(re, "")\<close> for a pattern without the \<open>g\<close> flag\<close>
  "replace_first pat s =
     (case rsearch pat s of
        None \<Rightarrow> s
      | Some (pre, gs) \<Rightarrow> pre @ drop (length pre + length (concat gs)) s)"

definition digit_val :: "char \<Rightarrow> int" where
  "digit_val c = int (length (takeWhile (\<lambda>d. d \<noteq> c) ''0123456789''))"

definition parseInt :: "string \<Rightarrow> int" where
  \<comment> \<open>\<open>parseInt\<close> on the only argument it gets here, a run of decimal digits\<close>
  "parseInt ds = foldl (\<lambda>a c. 10 * a + digit_val c) 0 (takeWhile is_digit ds)"

section \<open>The parser: \<open>parseLines\<close> and \<open>extractSetCode\<close>\<close>

datatype lineType = LineCard | LineSection | LineError | LineBlank | LineComment | LineNumber

text \<open>
  The field \<open>globalCount?: number | null\<close> has three states: the property is absent
  (\<open>undefined\<close>), it is \<open>null\<close>, or it holds a number.
\<close>

datatype countField = Undefined | Null | Num int

text \<open>
  The interface \<open>Line\<close>. An optional field that an object literal leaves out is
  \<open>None\<close>; the field \<open>text\<close> is called \<open>lineText\<close> here.
\<close>

record Line =
  lineType :: lineType
  cardCount :: "int option"
  globalCount :: countField
  cardName :: "string option"
  cardNumber :: "string option"
  cardSetCode :: "string option"
  comments :: "string list option"
  errors :: "string list option"
  lineText :: "string option"

definition emptyLine :: "lineType \<Rightarrow> Line" where
  \<comment> \<open>an object literal that sets \<open>lineType\<close> only\<close>
  "emptyLine t =
     \<lparr>lineType = t, cardCount = None, globalCount = Undefined, cardName = None,
      cardNumber = None, cardSetCode = None, comments = None, errors = None,
      lineText = None\<rparr>"

type_synonym CardCounts = "(string \<times> int) list"

definition countOrZero :: "CardCounts \<Rightarrow> string \<Rightarrow> int" where
  \<comment> \<open>\<open>cardCounts[cardId] || 0\<close>\<close>
  "countOrZero cardCounts cardId = (case map_of cardCounts cardId of None \<Rightarrow> 0 | Some n \<Rightarrow> n)"

definition extractSetCode :: "string \<Rightarrow> string" where
  "extractSetCode v =
     foldl (\<lambda>setCode setting.
              let settingParts = js_split (CHR ''='') setting in
              if length settingParts = 2
              then (let key = js_trim (settingParts ! 0);
                        val = js_trim (settingParts ! 1)
                    in if key = ''set'' then val else setCode)
              else setCode)
       [] (js_split (CHR '','') (drop 1 v))"

definition isBlank :: "string \<Rightarrow> bool" where
  \<comment> \<open>\<open>!line.length || line.match(blankLineRE)\<close>\<close>
  "isBlank line = (line = [] \<or> rmatch blankLineRE line \<noteq> None)"

definition isHeading :: "string \<Rightarrow> bool" where
  \<comment> \<open>\<open>line.match(headingMatchRE)\<close>\<close>
  "isHeading line = (rmatch headingMatchRE line \<noteq> None)"

definition isCommentLine :: "string \<Rightarrow> bool" where
  \<comment> \<open>\<open>line.startsWith(COMMENT_DELIMITER + " ")\<close>\<close>
  "isCommentLine line = startsWith line [COMMENT_DELIMITER, CHR '' '']"

definition isNumber :: "string \<Rightarrow> bool" where
  \<comment> \<open>\<open>line.match(numberRE)\<close>\<close>
  "isNumber line = (rsearch numberRE line \<noteq> None)"

text \<open>
  The last branch of the callback of \<open>rawLines.map\<close>: the card entry. The function
  \<open>nameToId\<close> of \<open>./collection\<close> is not among the sources and is a parameter; it is
  applied to an optional name because render calls it on \<open>line.cardName\<close>, which may be
  \<open>undefined\<close>.
\<close>

definition parseCard :: "(string option \<Rightarrow> string) \<Rightarrow> CardCounts \<Rightarrow> string \<Rightarrow> Line" where
  "parseCard nameToId cardCounts line =
     (let shouldSkipGlobalCounts = (cardCounts = []);
          lineWithoutComments0 =
            (if rsearch lineWithSetCodes line \<noteq> None
             then js_trim (replace_first setCodesRE line) else line);
          lineAndComments = js_split COMMENT_DELIMITER line;
          comments = (if COMMENT_DELIMITER \<in> set line then drop 1 lineAndComments else []);
          lineWithoutComments =
            (if COMMENT_DELIMITER \<in> set line then lineAndComments ! 0
             else lineWithoutComments0)
      in case rsearch lineMatchRE lineWithoutComments of
           None \<Rightarrow> (emptyLine LineError)\<lparr>errors := Some [''invalid line: '' @ line]\<rparr>
         | Some (pre, lineParts) \<Rightarrow>
             (let cardCount = parseInt (lineParts ! 0);
                  cardName = lineParts ! 2;
                  cardId = nameToId (Some cardName);
                  globalCount =
                    (if \<not> shouldSkipGlobalCounts then Num (countOrZero cardCounts cardId)
                     else Null);
                  errors =
                    (if length cardName = 0
                     then [''Unable to parse card name from: '' @ line] else [])
              in (emptyLine LineCard)\<lparr>cardCount := Some cardCount, globalCount := globalCount,
                   cardName := Some cardName, comments := Some comments,
                   errors := Some errors\<rparr>))"

text \<open>
  One call of the callback: the line's record and the value of the closure variable
  \<open>currentSetCode\<close> after it.
\<close>

definition parseLine ::
  "(string option \<Rightarrow> string) \<Rightarrow> CardCounts \<Rightarrow> string \<Rightarrow> string \<Rightarrow> Line \<times> string" where
  "parseLine nameToId cardCounts currentSetCode line =
     (if isBlank line then (emptyLine LineBlank, currentSetCode)
      else if isHeading line
      then ((emptyLine LineSection)\<lparr>lineText := Some line\<rparr>, currentSetCode)
      else if isCommentLine line
      then (let setCode = extractSetCode line
            in ((emptyLine LineComment)\<lparr>comments := Some [line]\<rparr>,
                if setCode \<noteq> [] then setCode else currentSetCode))
      else if isNumber line
      then ((emptyLine LineCard)\<lparr>lineText := Some line, cardNumber := Some (js_trim line),
               cardSetCode := Some currentSetCode, cardCount := Some 1,
               globalCount := Null\<rparr>, currentSetCode)
      else (parseCard nameToId cardCounts line, currentSetCode))"

fun parseLinesFrom ::
  "(string option \<Rightarrow> string) \<Rightarrow> CardCounts \<Rightarrow> string \<Rightarrow> string list \<Rightarrow> Line list" where
  "parseLinesFrom nameToId cardCounts currentSetCode [] = []"
| "parseLinesFrom nameToId cardCounts currentSetCode (line # rawLines) =
     fst (parseLine nameToId cardCounts currentSetCode line) #
     parseLinesFrom nameToId cardCounts
       (snd (parseLine nameToId cardCounts currentSetCode line)) rawLines"

definition parseLines ::
  "(string option \<Rightarrow> string) \<Rightarrow> string list \<Rightarrow> CardCounts \<Rightarrow> Line list" where
  \<comment> \<open>\<open>let currentSetCode = ""\<close>, then the map\<close>
  "parseLines nameToId rawLines cardCounts = parseLinesFrom nameToId cardCounts [] rawLines"

section \<open>Card data, settings and prices\<close>

text \<open>
  Modelled from the spec: the interface \<open>CardData\<close> of \<open>./scryfall\<close> is not among
  the sources. The record has the fields renderer.ts reads for its numbers: the
  canonical name, the per-currency prices (strings, each optional), the set code and
  the collector number.
\<close>

record CardPrices =
  usd :: "string option"
  eur :: "string option"
  tix :: "string option"

record CardData =
  cd_name :: "string option"
  cd_prices :: "CardPrices option"
  cd_set :: string
  cd_collector_number :: string

datatype currency = Usd | Eur | Tix

text \<open>The part \<open>settings.decklist\<close> of \<open>ObsidianPluginMtgSettings\<close>.\<close>

record DecklistSettings =
  preferredCurrency :: currency
  showCardNamesAsHyperlinks :: bool
  showCardPreviews :: bool
  showBuylist :: bool
  hidePrices :: bool

text \<open>
  \<open>Record<string, CardData>\<close>; renderCollection also stores \<open>undefined\<close> under a
  key, which is the value \<open>None\<close>.
\<close>

type_synonym CardDataById = "(string \<times> CardData option) list"

definition lookupData :: "CardDataById \<Rightarrow> string \<Rightarrow> CardData option" where
  \<comment> \<open>\<open>cardDataById[cardId]\<close>, where a missing key and \<open>undefined\<close> are both falsy\<close>
  "lookupData cardDataById cardId =
     (case map_of cardDataById cardId of None \<Rightarrow> None | Some d \<Rightarrow> d)"

definition orNull :: "string option \<Rightarrow> string option" where
  \<comment> \<open>\<open>x || null\<close> on an optional string: the empty string is falsy\<close>
  "orNull x = (case x of None \<Rightarrow> None | Some s \<Rightarrow> if s = [] then None else Some s)"

definition getCardPrice ::
  "(string option \<Rightarrow> string) \<Rightarrow> string \<Rightarrow> CardDataById \<Rightarrow> DecklistSettings \<Rightarrow> string option" where
  "getCardPrice nameToId name cardDataById settings =
     (let cardId = nameToId (Some name);
          cardData = lookupData cardDataById cardId
      in case cardData of
           None \<Rightarrow> None
         | Some d \<Rightarrow>
             if hidePrices settings then None
             else (case cd_prices d of
                     None \<Rightarrow> None
                   | Some ps \<Rightarrow>
                       (case preferredCurrency settings of
                          Eur \<Rightarrow> orNull (eur ps)
                        | Tix \<Rightarrow> orNull (tix ps)
                        | Usd \<Rightarrow> orNull (usd ps))))"

section \<open>Reconciliation: \<open>render\<close>\<close>

text \<open>
  Of \<open>render\<close> the model keeps the numbers and what can throw: the grouping into
  sections, the counts and the missing-card maps of every section, the buylist, and the
  list of cards of the sync link. The DOM elements and the displayed section costs are
  left out. A \<open>TypeError\<close> is a value.
\<close>

datatype jsError = TypeError

fun assign :: "string \<Rightarrow> 'v \<Rightarrow> (string \<times> 'v) list \<Rightarrow> (string \<times> 'v) list" where
  \<comment> \<open>\<open>m[k] = v\<close>: an existing key keeps its place, a new one goes last\<close>
  "assign k v [] = [(k, v)]"
| "assign k v ((k', v') # m) = (if k' = k then (k, v) # m else (k', v') # assign k v m)"

definition addCount :: "string \<Rightarrow> int \<Rightarrow> CardCounts \<Rightarrow> CardCounts" where
  \<comment> \<open>\<open>m[k] = (m[k] || 0) + n\<close>\<close>
  "addCount k n m = assign k (countOrZero m k + n) m"

definition pushLine :: "string \<Rightarrow> Line \<Rightarrow> (string \<times> Line list) list \<Rightarrow> (string \<times> Line list) list" where
  \<comment> \<open>\<open>if (!linesBySection[s]) linesBySection[s] = []; linesBySection[s].push(line)\<close>\<close>
  "pushLine s line linesBySection =
     assign s ((case map_of linesBySection s of None \<Rightarrow> [] | Some ls \<Rightarrow> ls) @ [line])
       linesBySection"

definition sectionText :: "Line \<Rightarrow> string" where
  \<comment> \<open>\<open>line.text || DEFAULT_SECTION_NAME\<close>\<close>
  "sectionText line =
     (case lineText line of
        None \<Rightarrow> DEFAULT_SECTION_NAME
      | Some t \<Rightarrow> if t = [] then DEFAULT_SECTION_NAME else t)"

fun groupLines ::
  "nat \<Rightarrow> string \<Rightarrow> string list \<Rightarrow> (string \<times> Line list) list \<Rightarrow> Line list \<Rightarrow>
   string list \<times> (string \<times> Line list) list" where
  "groupLines idx currentSection sections linesBySection [] = (sections, linesBySection)"
| "groupLines idx currentSection sections linesBySection (line # rest) =
     (let sections1 =
            (if idx = 0 \<and> lineType line \<noteq> LineSection then sections @ [currentSection]
             else sections)
      in if lineType line = LineSection
         then groupLines (idx + 1) (sectionText line) (sections1 @ [sectionText line])
                linesBySection rest
         else groupLines (idx + 1) currentSection sections1
                (pushLine currentSection line linesBySection) rest)"

definition lineCardCount :: "Line \<Rightarrow> int" where
  \<comment> \<open>\<open>line.cardCount || 0\<close>\<close>
  "lineCardCount line = (case cardCount line of None \<Rightarrow> 0 | Some n \<Rightarrow> n)"

definition lineGlobalCount :: "Line \<Rightarrow> int" where
  \<comment> \<open>\<open>line.globalCount === null ? -1 : line.globalCount || 0\<close>\<close>
  "lineGlobalCount line = (case globalCount line of Null \<Rightarrow> - 1 | Undefined \<Rightarrow> 0 | Num n \<Rightarrow> n)"

definition lineDeficit :: "Line \<Rightarrow> int option" where
  \<comment> \<open>the test \<open>lineGlobalCount !== -1 && lineCardCount > lineGlobalCount\<close> and the
     amount \<open>lineCardCount - lineGlobalCount\<close> that is added when it holds\<close>
  "lineDeficit line =
     (if lineGlobalCount line \<noteq> - 1 \<and> lineCardCount line > lineGlobalCount line
      then Some (lineCardCount line - lineGlobalCount line) else None)"

text \<open>
  The body of \<open>linesBySection[section].forEach\<close> on the three accumulators it
  updates: \<open>sectionTotalCounts\<close>, the global \<open>missingCardCounts\<close> and the section's
  \<open>sectionMissingCardCounts\<close>.
\<close>

definition lineStep ::
  "(string option \<Rightarrow> string) \<Rightarrow> string \<Rightarrow> CardCounts \<times> CardCounts \<times> CardCounts \<Rightarrow> Line \<Rightarrow>
   CardCounts \<times> CardCounts \<times> CardCounts" where
  "lineStep nameToId section acc line =
     (case acc of (totals, missing, sectionMissing) \<Rightarrow>
        if lineType line = LineCard
        then (addCount section (lineCardCount line) totals,
              (case lineDeficit line of
                 None \<Rightarrow> missing
               | Some d \<Rightarrow> addCount (nameToId (cardName line)) d missing),
              (case lineDeficit line of
                 None \<Rightarrow> sectionMissing
               | Some d \<Rightarrow> addCount (nameToId (cardName line)) d sectionMissing))
        else acc)"

record SectionResult =
  sectionName :: string
  sectionLines :: "Line list"
  sectionTotalCount :: int
  sectionMissingCardCounts :: CardCounts
  totalMissingCountInSection :: "int option"
  totalCardsOwned :: "int option"

definition sectionSummary :: "string \<Rightarrow> Line list \<Rightarrow> int \<Rightarrow> CardCounts \<Rightarrow> SectionResult" where
  \<comment> \<open>the totals under a section: a fraction when cards are missing, the plain count
     otherwise\<close>
  "sectionSummary section ls n sectionMissing =
     \<lparr>sectionName = section, sectionLines = ls, sectionTotalCount = n,
      sectionMissingCardCounts = sectionMissing,
      totalMissingCountInSection =
        (if sectionMissing \<noteq> [] then Some (sum_list (map snd sectionMissing)) else None),
      totalCardsOwned =
        (if sectionMissing \<noteq> [] then Some (n - sum_list (map snd sectionMissing))
         else None)\<rparr>"

text \<open>
  \<open>sections.forEach\<close>. Reading \<open>linesBySection[section]\<close> of a section that got no
  line gives \<open>undefined\<close>, and \<open>undefined.forEach\<close> throws.
\<close>

fun processSections ::
  "(string option \<Rightarrow> string) \<Rightarrow> (string \<times> Line list) list \<Rightarrow> CardCounts \<Rightarrow> CardCounts \<Rightarrow>
   string list \<Rightarrow> jsError + (SectionResult list \<times> CardCounts \<times> CardCounts)" where
  "processSections nameToId linesBySection sectionTotalCounts missingCardCounts [] =
     Inr ([], sectionTotalCounts, missingCardCounts)"
| "processSections nameToId linesBySection sectionTotalCounts missingCardCounts (section # rest) =
     (case map_of linesBySection section of
        None \<Rightarrow> Inl TypeError
      | Some ls \<Rightarrow>
          (case foldl (lineStep nameToId section) (sectionTotalCounts, missingCardCounts, []) ls of
             (totals, missing, sectionMissing) \<Rightarrow>
               (case processSections nameToId linesBySection totals missing rest of
                  Inl e \<Rightarrow> Inl e
                | Inr (results, totals', missing') \<Rightarrow>
                    Inr (sectionSummary section ls (countOrZero totals section) sectionMissing
                           # results, totals', missing'))))"

text \<open>
  The buylist. A line of \<open>buylistLines\<close> is the pair of the count and the label that
  the source prints as \<open>"count label\n"\<close>. The constant \<open>UNKNOWN_CARD\<close> of
  \<open>./collection\<close> is not among the sources and is a parameter, and so is the built-in
  \<open>parseFloat\<close>. \<open>buylistCardIds.forEach\<close> reads \<open>missingCardCounts[cardId]\<close> for
  every key, which is a walk over the entries of the map.
\<close>

record Buylist =
  buylistLines :: "(int \<times> string) list"
  totalCostOfBuylist :: real
  buylistCardCounts :: int

definition buylistStep ::
  "(string option \<Rightarrow> string) \<Rightarrow> string \<Rightarrow> (string \<Rightarrow> real) \<Rightarrow> CardDataById \<Rightarrow>
   DecklistSettings \<Rightarrow> (int \<times> string) list \<times> real \<Rightarrow> string \<times> int \<Rightarrow>
   (int \<times> string) list \<times> real" where
  "buylistStep nameToId UNKNOWN_CARD parseFloat cardDataByCardId settings acc entry =
     (case acc of (ls, cost) \<Rightarrow>
      case entry of (cardId, countNeeded) \<Rightarrow>
        (case lookupData cardDataByCardId cardId of
           Some cardInfo \<Rightarrow>
             (let name = (case cd_name cardInfo of None \<Rightarrow> [] | Some n \<Rightarrow> n);
                  cardPrice =
                    parseFloat
                      (case getCardPrice nameToId name cardDataByCardId settings of
                         None \<Rightarrow> ''0.00''
                       | Some p \<Rightarrow> p)
              in (ls @ [(countNeeded, name)], cost + cardPrice * real_of_int countNeeded))
         | None \<Rightarrow>
             (ls @ [(countNeeded, if cardId = [] then UNKNOWN_CARD else cardId)], cost)))"

definition buildBuylist ::
  "(string option \<Rightarrow> string) \<Rightarrow> string \<Rightarrow> (string \<Rightarrow> real) \<Rightarrow> CardDataById \<Rightarrow>
   DecklistSettings \<Rightarrow> CardCounts \<Rightarrow> Buylist option" where
  "buildBuylist nameToId UNKNOWN_CARD parseFloat cardDataByCardId settings missingCardCounts =
     (if missingCardCounts \<noteq> [] \<and> showBuylist settings
      then (case foldl (buylistStep nameToId UNKNOWN_CARD parseFloat cardDataByCardId settings)
                   ([], 0) missingCardCounts of
              (ls, cost) \<Rightarrow>
                Some \<lparr>buylistLines = ls, totalCostOfBuylist = cost,
                      buylistCardCounts = sum_list (map snd missingCardCounts)\<rparr>)
      else None)"

text \<open>
  The cards of the sync link, one \<open>set:collector_number:count\<close> for every key of
  \<open>cardDataByCardId\<close>. Under a key that holds \<open>undefined\<close> the reads
  \<open>cardData.name\<close> and \<open>cardData.set\<close> throw.
\<close>

fun syncCards :: "Line list \<Rightarrow> CardDataById \<Rightarrow> jsError + (string \<times> string \<times> nat) list" where
  "syncCards parsedLines [] = Inr []"
| "syncCards parsedLines ((cardId, None) # rest) = Inl TypeError"
| "syncCards parsedLines ((cardId, Some cardData) # rest) =
     (case syncCards parsedLines rest of
        Inl e \<Rightarrow> Inl e
      | Inr cards \<Rightarrow>
          Inr ((cd_set cardData, cd_collector_number cardData,
                length (filter (\<lambda>line. cardName line = cd_name cardData)
                          (filter (\<lambda>line. lineType line = LineCard) parsedLines)))
               # cards))"

record RenderResult =
  sections :: "SectionResult list"
  sectionTotalCounts :: CardCounts
  missingCardCounts :: CardCounts
  buylist :: "Buylist option"
  syncLink :: "(string \<times> string \<times> nat) list option"

definition render ::
  "(string option \<Rightarrow> string) \<Rightarrow> string \<Rightarrow> (string \<Rightarrow> real) \<Rightarrow> CardDataById \<Rightarrow>
   DecklistSettings \<Rightarrow> bool \<Rightarrow> Line list \<Rightarrow> bool \<Rightarrow> jsError + RenderResult" where
  "render nameToId UNKNOWN_CARD parseFloat cardDataByCardId settings workspace parsedLines
      isCollection =
     (case groupLines 0 (if isCollection then ''Collection: '' else DEFAULT_SECTION_NAME)
             [] [] parsedLines of
        (secs, linesBySection) \<Rightarrow>
          (case processSections nameToId linesBySection
                  (foldl (\<lambda>acc curr. assign curr 0 acc) [] secs) [] secs of
             Inl e \<Rightarrow> Inl e
           | Inr (results, totals, missing) \<Rightarrow>
               (let r = \<lparr>sections = results, sectionTotalCounts = totals,
                         missingCardCounts = missing,
                         buylist = buildBuylist nameToId UNKNOWN_CARD parseFloat
                                     cardDataByCardId settings missing,
                         syncLink = None\<rparr>
                in if isCollection \<and> workspace
                   then (case syncCards parsedLines cardDataByCardId of
                           Inl e \<Rightarrow> Inl e
                         | Inr cards \<Rightarrow> Inr (r\<lparr>syncLink := Some cards\<rparr>))
                   else Inr r)))"

section \<open>The two entry points\<close>

text \<open>
  \<open>renderDecklist\<close> and \<open>renderCollection\<close> await a data fetcher between parsing and
  rendering. The model takes what the fetcher returned (or the empty record the
  \<open>catch\<close> leaves) as an argument.
\<close>

definition renderDecklist ::
  "(string option \<Rightarrow> string) \<Rightarrow> string \<Rightarrow> (string \<Rightarrow> real) \<Rightarrow> string \<Rightarrow> CardCounts \<Rightarrow>
   DecklistSettings \<Rightarrow> bool \<Rightarrow> CardDataById \<Rightarrow> jsError + RenderResult" where
  "renderDecklist nameToId UNKNOWN_CARD parseFloat source cardCounts settings workspace
      cardDataByCardId =
     render nameToId UNKNOWN_CARD parseFloat cardDataByCardId settings workspace
       (parseLines nameToId (js_split (CHR 0x0A) source) cardCounts) False"

definition truthy :: "string option \<Rightarrow> bool" where
  "truthy x = (case x of None \<Rightarrow> False | Some s \<Rightarrow> s \<noteq> [])"

definition notFoundName :: "string \<Rightarrow> string \<Rightarrow> string" where
  \<comment> \<open>the template \<open>Card not found (${line.cardSetCode}/${line.cardNumber})\<close>\<close>
  "notFoundName setCode num = ''Card not found ('' @ setCode @ ''/'' @ num @ '')''"

text \<open>
  The body of \<open>parsedLines.forEach\<close> in \<open>renderCollection\<close>: the line after it and
  \<open>cardDataByCardId\<close> after it. \<open>cardDataBySetNameByCardNumber[line.cardSetCode]\<close> is
  \<open>undefined\<close> for a set code that is no key of the fetched record, and indexing it
  throws.
\<close>

definition resolveLine ::
  "(string option \<Rightarrow> string) \<Rightarrow> CardCounts \<Rightarrow> (string \<times> (string \<times> CardData) list) list \<Rightarrow>
   CardDataById \<Rightarrow> Line \<Rightarrow> jsError + Line \<times> CardDataById" where
  "resolveLine nameToId cardCounts cardDataBySetNameByCardNumber cardDataByCardId line =
     (if lineType line = LineCard \<and> truthy (cardNumber line) \<and> truthy (cardSetCode line)
      then (case map_of cardDataBySetNameByCardNumber (the (cardSetCode line)) of
              None \<Rightarrow> Inl TypeError
            | Some byNumber \<Rightarrow>
                (let cardData = map_of byNumber (the (cardNumber line));
                     name = (case cardData of
                               None \<Rightarrow>
                                 Some (notFoundName (the (cardSetCode line))
                                         (the (cardNumber line)))
                             | Some d \<Rightarrow> cd_name d);
                     cardId = nameToId name;
                     line1 = line\<lparr>cardName := name\<rparr>
                 in Inr (if cardCounts \<noteq> []
                         then line1\<lparr>globalCount := Num (countOrZero cardCounts cardId)\<rparr>
                         else line1,
                         assign cardId cardData cardDataByCardId)))
      else Inr (line, cardDataByCardId))"

fun resolveLines ::
  "(string option \<Rightarrow> string) \<Rightarrow> CardCounts \<Rightarrow> (string \<times> (string \<times> CardData) list) list \<Rightarrow>
   CardDataById \<Rightarrow> Line list \<Rightarrow> jsError + Line list \<times> CardDataById" where
  "resolveLines nameToId cardCounts fetched cardDataByCardId [] = Inr ([], cardDataByCardId)"
| "resolveLines nameToId cardCounts fetched cardDataByCardId (line # rest) =
     (case resolveLine nameToId cardCounts fetched cardDataByCardId line of
        Inl e \<Rightarrow> Inl e
      | Inr (line', cardDataByCardId') \<Rightarrow>
          (case resolveLines nameToId cardCounts fetched cardDataByCardId' rest of
             Inl e \<Rightarrow> Inl e
           | Inr (rest', cardDataByCardId'') \<Rightarrow> Inr (line' # rest', cardDataByCardId'')))"

definition renderCollection ::
  "(string option \<Rightarrow> string) \<Rightarrow> string \<Rightarrow> (string \<Rightarrow> real) \<Rightarrow> string \<Rightarrow> CardCounts \<Rightarrow>
   DecklistSettings \<Rightarrow> bool \<Rightarrow> (string \<times> (string \<times> CardData) list) list \<Rightarrow>
   jsError + RenderResult" where
  "renderCollection nameToId UNKNOWN_CARD parseFloat source cardCounts settings workspace
      cardDataBySetNameByCardNumber =
     (case resolveLines nameToId cardCounts cardDataBySetNameByCardNumber []
             (parseLines nameToId (js_split (CHR 0x0A) source) cardCounts) of
        Inl e \<Rightarrow> Inl e
      | Inr (parsedLines, cardDataByCardId) \<Rightarrow>
          render nameToId UNKNOWN_CARD parseFloat cardDataByCardId settings workspace
            parsedLines True)"

section \<open>Notions used in the statements\<close>

text \<open>
  The value of \<open>currentSetCode\<close> after a run of lines, that is, the state the next
  line is parsed in.
\<close>

definition setCodeAfter ::
  "(string option \<Rightarrow> string) \<Rightarrow> CardCounts \<Rightarrow> string \<Rightarrow> string list \<Rightarrow> string" where
  "setCodeAfter nameToId cardCounts currentSetCode rawLines =
     foldl (\<lambda>st line. snd (parseLine nameToId cardCounts st line)) currentSetCode rawLines"

text \<open>
  The deficit in the words of the specification: \<open>max(0, count - owned)\<close> for a line
  with tracking enabled, nothing for a line without.
\<close>

definition specDeficit :: "Line \<Rightarrow> int" where
  "specDeficit line =
     (case globalCount line of
        Num owned \<Rightarrow> max 0 (lineCardCount line - owned)
      | _ \<Rightarrow> 0)"

text \<open>
  The unit price the buylist resolves for a card id: the price \<open>getCardPrice\<close> finds
  under the name of the id's metadata, if the id has metadata.
\<close>

definition buylistUnitPrice ::
  "(string option \<Rightarrow> string) \<Rightarrow> CardDataById \<Rightarrow> DecklistSettings \<Rightarrow> string \<Rightarrow> string option" where
  "buylistUnitPrice nameToId cardDataByCardId settings cardId =
     (case lookupData cardDataByCardId cardId of
        None \<Rightarrow> None
      | Some cardInfo \<Rightarrow>
          getCardPrice nameToId (case cd_name cardInfo of None \<Rightarrow> [] | Some n \<Rightarrow> n)
            cardDataByCardId settings)"

definition buylistLabel :: "string \<Rightarrow> CardDataById \<Rightarrow> string \<Rightarrow> string" where
  \<comment> \<open>the name of the metadata, or the id (\<open>cardId || UNKNOWN_CARD\<close>) without metadata\<close>
  "buylistLabel UNKNOWN_CARD cardDataByCardId cardId =
     (case lookupData cardDataByCardId cardId of
        Some cardInfo \<Rightarrow> (case cd_name cardInfo of None \<Rightarrow> [] | Some n \<Rightarrow> n)
      | None \<Rightarrow> if cardId = [] then UNKNOWN_CARD else cardId)"

text \<open>
  Stand-ins for the examples: a \<open>nameToId\<close>, a \<open>parseFloat\<close> that knows two price
  strings, and settings that show the buylist in dollars.
\<close>

definition exampleNameToId :: "string option \<Rightarrow> string" where
  "exampleNameToId n = (case n of None \<Rightarrow> ''unknown'' | Some s \<Rightarrow> s)"

definition exampleParseFloat :: "string \<Rightarrow> real" where
  "exampleParseFloat s = (if s = ''1.50'' then 3 / 2 else 0)"

definition exampleSettings :: DecklistSettings where
  "exampleSettings =
     \<lparr>preferredCurrency = Usd, showCardNamesAsHyperlinks = False, showCardPreviews = False,
      showBuylist = True, hidePrices = False\<rparr>"

definition exampleCard :: "string \<Rightarrow> string option \<Rightarrow> CardData" where
  "exampleCard n p =
     \<lparr>cd_name = Some n, cd_prices = Some \<lparr>usd = p, eur = None, tix = None\<rparr>,
      cd_set = ''war'', cd_collector_number = ''9''\<rparr>"

text \<open>
  What a card line adds to the missing-card maps, zero when it adds nothing, and the
  shape of the count fields the parser and the collection resolution produce from a
  ledger without negative counts.
\<close>

definition deficitOf :: "Line \<Rightarrow> int" where
  "deficitOf line = (case lineDeficit line of None \<Rightarrow> 0 | Some d \<Rightarrow> d)"

definition countsWellFormed :: "Line \<Rightarrow> bool" where
  "countsWellFormed line =
     (lineType line = LineCard \<longrightarrow>
        (case globalCount line of
           Null \<Rightarrow> True
         | Num owned \<Rightarrow> 0 \<le> owned
         | Undefined \<Rightarrow> False))"

text \<open>
  Two example runs of \<open>renderDecklist\<close>: a sideboard checked against a ledger, with
  metadata for one of its cards, and a single line without a ledger.
\<close>

definition exampleDeck :: "jsError + RenderResult" where
  "exampleDeck =
     renderDecklist exampleNameToId ''unknown'' exampleParseFloat
       ''Sideboard:\<newline>2 Negate\<newline>3 Negate\<newline>1 Shock\<newline>1 Opt''
       [(''Negate'', 1), (''Shock'', 0), (''Opt'', 4)] exampleSettings False
       [(''Negate'', Some (exampleCard ''Negate'' (Some ''1.50'')))]"

definition exampleNoLedger :: "jsError + RenderResult" where
  "exampleNoLedger =
     renderDecklist exampleNameToId ''unknown'' exampleParseFloat ''4 Lightning Bolt'' []
       exampleSettings False []"

section \<open>Evaluation\<close>

lemmas class_defs =
  is_digit_def is_space_def is_alnum_def is_word_def is_name_char_def is_dot_def
  is_heading_start_def

lemmas re_defs =
  lineMatchRE_def setCodesRE_def lineWithSetCodes_def blankLineRE_def headingMatchRE_def
  numberRE_def

lemmas shape_defs =
  isBlank_def isHeading_def isCommentLine_def isNumber_def startsWith_def
  COMMENT_DELIMITER_def

lemmas parse_defs =
  parseLines_def parseLine_def parseCard_def shape_defs re_defs class_defs emptyLine_def
  parseInt_def digit_val_def js_trim_def extractSetCode_def Let_def

lemmas render_defs =
  render_def renderDecklist_def renderCollection_def resolveLine_def truthy_def
  notFoundName_def lineStep_def lineDeficit_def lineCardCount_def lineGlobalCount_def
  addCount_def countOrZero_def pushLine_def sectionText_def sectionSummary_def
  buildBuylist_def buylistStep_def getCardPrice_def lookupData_def orNull_def
  DEFAULT_SECTION_NAME_def

lemmas example_defs =
  exampleNameToId_def exampleParseFloat_def exampleSettings_def exampleCard_def

section \<open>The parser\<close>

text \<open>
  Every index the parser reads is in range: a match has one group per item of its
  pattern, so \<open>lineParts\<close> has the groups 0 and 2 of \<open>lineMatchRE\<close>, and a split
  has at least one part.
\<close>

lemma length_grow: "length (grow c gs) = length gs"
  by (cases gs) simp_all

lemma rmatch_length: "rmatch pat s = Some gs \<Longrightarrow> length gs = length pat"
  by (induction pat s arbitrary: gs rule: rmatch.induct)
     (auto simp: length_grow split: if_splits option.splits)

lemma rsearch_length: "rsearch pat s = Some (pre, gs) \<Longrightarrow> length gs = length pat"
  by (induction s arbitrary: pre) (auto simp: rmatch_length split: option.splits)

lemma js_split_not_Nil: "js_split d s \<noteq> []"
  by (induction s) (auto simp: neq_Nil_conv)

lemma comment_line_shape:
  "isCommentLine line \<Longrightarrow> \<not> isBlank line \<and> \<not> isHeading line"
  by (cases line) (auto simp: shape_defs re_defs class_defs)

lemma snd_parseLine:
  "snd (parseLine nameToId cardCounts st line) =
     (if isCommentLine line \<and> extractSetCode line \<noteq> [] then extractSetCode line else st)"
  using comment_line_shape [of line] by (simp add: parseLine_def Let_def)

lemma length_parseLinesFrom:
  "length (parseLinesFrom nameToId cardCounts st rawLines) = length rawLines"
  by (induction rawLines arbitrary: st) simp_all

lemma parseLinesFrom_append:
  "parseLinesFrom nameToId cardCounts st (xs @ ys) =
     parseLinesFrom nameToId cardCounts st xs @
     parseLinesFrom nameToId cardCounts (setCodeAfter nameToId cardCounts st xs) ys"
  by (induction xs arbitrary: st) (simp_all add: setCodeAfter_def)

lemma take_parseLinesFrom:
  "take n (parseLinesFrom nameToId cardCounts st rawLines) =
     parseLinesFrom nameToId cardCounts st (take n rawLines)"
proof (induction rawLines arbitrary: st n)
  case Nil
  then show ?case by simp
next
  case (Cons line rawLines)
  then show ?case by (cases n) simp_all
qed

lemma setCodeAfter_unchanged:
  "\<forall>line\<in>set rawLines. \<not> (isCommentLine line \<and> extractSetCode line \<noteq> []) \<Longrightarrow>
   setCodeAfter nameToId cardCounts st rawLines = st"
  by (induction rawLines arbitrary: st) (auto simp: setCodeAfter_def snd_parseLine)

text \<open>
  C2. For every list of raw lines and every ledger, \<open>parseLines\<close> returns one record
  per input line, in input order: the output is as long as the input, the output of a
  prefix of the input is the same prefix of the output, and the record at a position is
  the record of the line at that position, parsed in the state the lines before it
  leave. The model has no error value because the callback has no statement that
  throws, so no line aborts the parse. Parsing the same input twice gives the same
  output: \<open>currentSetCode\<close> is a local that every call sets to the empty string, and
  the regular expressions carry no \<open>g\<close> flag, hence no state between calls.
\<close>

theorem parseLines_one_record_per_line:
  "length (parseLines nameToId rawLines cardCounts) = length rawLines \<and>
   (\<forall>n. take n (parseLines nameToId rawLines cardCounts) =
          parseLines nameToId (take n rawLines) cardCounts) \<and>
   (\<forall>before line after.
      rawLines = before @ line # after \<longrightarrow>
      parseLines nameToId rawLines cardCounts ! length before =
        fst (parseLine nameToId cardCounts (setCodeAfter nameToId cardCounts [] before) line)) \<and>
   (let first = parseLines nameToId rawLines cardCounts;
        second = parseLines nameToId rawLines cardCounts
    in first = second)"
  by (simp add: parseLines_def length_parseLinesFrom take_parseLinesFrom
      parseLinesFrom_append nth_append)

theorem parseLines_one_record_per_line_witness:
  "length (parseLines exampleNameToId [''# set=war'', ''5'', ''2 Negate''] [(''Negate'', 1)]) = 3 \<and>
   parseLines exampleNameToId [''# set=war'', ''5'', ''2 Negate''] [(''Negate'', 1)] ! 1 =
     fst (parseLine exampleNameToId [(''Negate'', 1)] ''war'' ''5'')"
proof -
  note all = parseLines_one_record_per_line
    [of exampleNameToId "[''# set=war'', ''5'', ''2 Negate'']" "[(''Negate'', 1)]"]
  have st: "setCodeAfter exampleNameToId [(''Negate'', 1)] [] [''# set=war''] = ''war''"
    by (simp add: setCodeAfter_def snd_parseLine shape_defs extractSetCode_def js_trim_def
        class_defs)
  from all have len:
    "length (parseLines exampleNameToId [''# set=war'', ''5'', ''2 Negate''] [(''Negate'', 1)]) =
     length [''# set=war'', ''5'', ''2 Negate'']"
    by (rule conjunct1)
  note pos = all [THEN conjunct2, THEN conjunct2, THEN conjunct1, THEN spec, THEN spec,
    THEN spec, of "[''# set=war'']" "''5''" "[''2 Negate'']"]
  from len pos st show ?thesis by simp
qed

text \<open>
  C8. The carried set code starts empty and changes only at a comment line whose
  \<open>set\<close> key has a non-empty value. A line is parsed in the state that the lines
  before it leave, starting from the empty string; after one line the state is the
  extracted set code if the line is a comment line and the extracted code is not
  empty, and the state before the line otherwise, whatever the shape of the line; so
  across any run of lines none of which is such a comment line the state stays what
  it was.
\<close>

theorem set_code_changes_only_at_set_comment:
  "setCodeAfter nameToId cardCounts st [] = st \<and>
   parseLines nameToId (before @ [line]) cardCounts =
     parseLines nameToId before cardCounts @
     [fst (parseLine nameToId cardCounts (setCodeAfter nameToId cardCounts [] before) line)] \<and>
   snd (parseLine nameToId cardCounts st line) =
     (if isCommentLine line \<and> extractSetCode line \<noteq> [] then extractSetCode line else st) \<and>
   ((\<forall>l\<in>set rawLines. \<not> (isCommentLine l \<and> extractSetCode l \<noteq> [])) \<longrightarrow>
      setCodeAfter nameToId cardCounts st rawLines = st)"
proof -
  have "setCodeAfter nameToId cardCounts st [] = st"
    by (simp add: setCodeAfter_def)
  moreover have "parseLines nameToId (before @ [line]) cardCounts =
     parseLines nameToId before cardCounts @
     [fst (parseLine nameToId cardCounts (setCodeAfter nameToId cardCounts [] before) line)]"
    by (simp add: parseLines_def parseLinesFrom_append)
  ultimately show ?thesis
    using snd_parseLine setCodeAfter_unchanged by blast
qed

theorem set_code_changes_only_at_set_comment_witness:
  "snd (parseLine exampleNameToId [] [] ''# set=war'') = ''war'' \<and>
   setCodeAfter exampleNameToId [] ''war''
     ['''', ''Sideboard:'', ''# a note'', ''5'', ''2 Negate'', ''x''] = ''war''"
proof -
  note all = set_code_changes_only_at_set_comment
      [of exampleNameToId "[]" "[]" "[]" "''# set=war''"
          "['''', ''Sideboard:'', ''# a note'', ''5'', ''2 Negate'', ''x'']"]
  note all' = set_code_changes_only_at_set_comment
      [of exampleNameToId "[]" "''war''" "[]" "''# set=war''"
          "['''', ''Sideboard:'', ''# a note'', ''5'', ''2 Negate'', ''x'']"]
  have quiet: "\<forall>l\<in>set ['''', ''Sideboard:'', ''# a note'', ''5'', ''2 Negate'', ''x''].
          \<not> (isCommentLine l \<and> extractSetCode l \<noteq> [])"
    by (simp add: shape_defs extractSetCode_def js_trim_def class_defs)
  have sets: "isCommentLine ''# set=war'' \<and> extractSetCode ''# set=war'' \<noteq> []"
    and code: "extractSetCode ''# set=war'' = ''war''"
    by (simp_all add: shape_defs extractSetCode_def js_trim_def class_defs)
  from all [THEN conjunct2, THEN conjunct2, THEN conjunct1] sets code
  have one: "snd (parseLine exampleNameToId [] [] ''# set=war'') = ''war''"
    by simp
  from all' [THEN conjunct2, THEN conjunct2, THEN conjunct2, THEN mp, OF quiet]
  have two: "setCodeAfter exampleNameToId [] ''war''
     ['''', ''Sideboard:'', ''# a note'', ''5'', ''2 Negate'', ''x''] = ''war''" .
  from one two show ?thesis by (rule conjI)
qed

section \<open>The shapes of a line\<close>

text \<open>What the three anchored or end-anchored expressions accept.\<close>

lemma rmatch_Star_Eol: "(rmatch [Star p, Eol] s \<noteq> None) = list_all p s"
  by (induction s) (auto split: option.splits)

lemma rmatch_Plus_Eol: "(rmatch [Plus p, Eol] s \<noteq> None) = (s \<noteq> [] \<and> list_all p s)"
  using rmatch_Star_Eol [of p "tl s"] by (cases s) auto

lemma rsearch_Plus_Eol: "(rsearch [Plus p, Eol] s \<noteq> None) = (s \<noteq> [] \<and> p (last s))"
proof (induction s)
  case Nil
  then show ?case by simp
next
  case (Cons c cs)
  have "(rsearch [Plus p, Eol] (c # cs) \<noteq> None) =
        (rmatch [Plus p, Eol] (c # cs) \<noteq> None \<or> rsearch [Plus p, Eol] cs \<noteq> None)"
    by (auto split: option.splits)
  also have "\<dots> = ((p c \<and> list_all p cs) \<or> (cs \<noteq> [] \<and> p (last cs)))"
    using Cons.IH rmatch_Plus_Eol [of p "c # cs"] by simp
  also have "\<dots> = p (last (c # cs))"
    by (cases "cs = []") (auto simp: list_all_iff)
  finally show ?case by simp
qed

lemma isNumber_iff: "isNumber line = (line \<noteq> [] \<and> is_digit (last line))"
  unfolding isNumber_def numberRE_def by (rule rsearch_Plus_Eol)

lemma isBlank_iff: "isBlank line = list_all is_space line"
  using rmatch_Plus_Eol [of is_space line] by (cases line) (auto simp: isBlank_def blankLineRE_def)

lemma isHeading_iff: "isHeading line = (line \<noteq> [] \<and> is_heading_start (hd line))"
  by (cases line) (simp_all add: isHeading_def headingMatchRE_def)

text \<open>
  C5. The claim says that a line that is not blank, not a header and not a comment line
  is a bare collector-number reference exactly when it consists of digits only. The
  expression \<open>/\d+$/\<close> has no \<open>^\<close>: it accepts every line that ends in a digit
  (lemma \<open>isNumber_iff\<close>). The card line \<open>4 Lightning Bolt (M10) 146\<close>, which the
  set-code branch further down exists to handle, is neither blank, header nor comment
  line and does not consist of digits, and it is emitted as a collector-number
  reference whose number is the whole line.
\<close>

theorem card_line_with_set_code_parsed_as_number:
  "\<not> isBlank ''4 Lightning Bolt (M10) 146'' \<and>
   \<not> isHeading ''4 Lightning Bolt (M10) 146'' \<and>
   \<not> isCommentLine ''4 Lightning Bolt (M10) 146'' \<and>
   \<not> list_all is_digit ''4 Lightning Bolt (M10) 146'' \<and>
   parseLine nameToId cardCounts st ''4 Lightning Bolt (M10) 146'' =
     ((emptyLine LineCard)\<lparr>lineText := Some ''4 Lightning Bolt (M10) 146'',
        cardNumber := Some ''4 Lightning Bolt (M10) 146'', cardSetCode := Some st,
        cardCount := Some 1, globalCount := Null\<rparr>, st)"
  by (simp add: parseLine_def shape_defs re_defs class_defs js_trim_def)

text \<open>
  C6. The claim says that a non-blank line whose first character is neither a digit nor
  \<open>#\<close> is a section header. The character class of \<open>headingMatchRE\<close> also holds
  \<open>[\<close> and \<open>|\<close>: the line \<open>[Sideboard]\<close> is not blank, starts with neither a
  digit nor \<open>#\<close>, and is emitted as an error line.
\<close>

theorem bracket_line_is_not_a_heading:
  "\<not> isBlank ''[Sideboard]'' \<and> \<not> is_digit (hd ''[Sideboard]'') \<and>
   hd ''[Sideboard]'' \<noteq> COMMENT_DELIMITER \<and>
   parseLine nameToId cardCounts st ''[Sideboard]'' =
     ((emptyLine LineError)\<lparr>errors := Some [''invalid line: [Sideboard]'']\<rparr>, st)"
  by (simp add: parseLine_def parseCard_def shape_defs re_defs class_defs Let_def)

text \<open>
  C7. Parsing the single line \<open>3 Shock # great removal\<close> with any ledger gives one
  card line with count 3, the comments \<open>[" great removal"]\<close> and no errors. Its
  name is group 2 of \<open>lineMatchRE\<close> on the text before the first \<open>#\<close>, which is
  \<open>"Shock "\<close> with the space that precedes the delimiter: the source does not trim
  it. The second theorem is the claim's name \<open>"Shock"\<close> refuted.
\<close>

theorem scenario_D_name_keeps_space:
  "parseLines nameToId [''3 Shock # great removal''] cardCounts =
     [\<lparr>lineType = LineCard, cardCount = Some 3,
       globalCount =
         (if cardCounts = [] then Null
          else Num (countOrZero cardCounts (nameToId (Some ''Shock '')))),
       cardName = Some ''Shock '', cardNumber = None, cardSetCode = None,
       comments = Some ['' great removal''], errors = Some [], lineText = None\<rparr>]"
  by (simp add: parseLines_def parseLine_def parseCard_def shape_defs re_defs class_defs
      emptyLine_def parseInt_def digit_val_def Let_def)

theorem scenario_D_name_is_not_trimmed:
  "map cardName (parseLines exampleNameToId [''3 Shock # great removal''] []) \<noteq>
     [Some ''Shock'']"
  by (simp add: parseLines_def parseLine_def parseCard_def shape_defs re_defs class_defs
      emptyLine_def parseInt_def digit_val_def Let_def)

lemma countOrZero_assign: "countOrZero (assign k v m) k = v"
  by (induction m) (auto simp: countOrZero_def)

section \<open>Reconciliation\<close>

lemma map_of_assign: "map_of (assign k v m) = (map_of m)(k \<mapsto> v)"
  by (induction m) auto

lemma assign_not_Nil: "assign k v m \<noteq> []"
  by (cases m) (auto split: if_splits)

lemma countOrZero_addCount:
  "countOrZero (addCount k n m) k' = countOrZero m k' + (if k' = k then n else 0)"
  by (simp add: countOrZero_def addCount_def map_of_assign)

lemma sum_assign:
  "sum_list (map snd (assign k v m)) = sum_list (map snd m) - countOrZero m k + v"
  by (induction m) (auto simp: countOrZero_def)

lemma sum_addCount: "sum_list (map snd (addCount k n m)) = sum_list (map snd m) + n"
  by (simp add: addCount_def sum_assign)

lemma addCount_not_Nil: "addCount k n m \<noteq> []"
  by (simp add: addCount_def assign_not_Nil)

lemma pass_total:
  "countOrZero (fst (foldl (lineStep nameToId sec) (t, m, sm) ls)) sec =
     countOrZero t sec + (\<Sum>l\<leftarrow>filter (\<lambda>l. lineType l = LineCard) ls. lineCardCount l)"
  by (induction ls arbitrary: t m sm) (simp_all add: lineStep_def countOrZero_addCount)

lemma pass_section_sum:
  "sum_list (map snd (snd (snd (foldl (lineStep nameToId sec) (t, m, sm) ls)))) =
     sum_list (map snd sm) + (\<Sum>l\<leftarrow>filter (\<lambda>l. lineType l = LineCard) ls. deficitOf l)"
  by (induction ls arbitrary: t m sm)
     (simp_all add: lineStep_def sum_addCount deficitOf_def split: option.splits)

lemma pass_section_id:
  "countOrZero (snd (snd (foldl (lineStep nameToId sec) (t, m, sm) ls))) cardId =
     countOrZero sm cardId +
     (\<Sum>l\<leftarrow>filter (\<lambda>l. lineType l = LineCard \<and> nameToId (cardName l) = cardId) ls. deficitOf l)"
  by (induction ls arbitrary: t m sm)
     (simp_all add: lineStep_def countOrZero_addCount deficitOf_def split: option.splits)

lemma pass_no_deficit:
  "\<forall>l\<in>set ls. lineType l = LineCard \<longrightarrow> lineDeficit l = None \<Longrightarrow>
   snd (foldl (lineStep nameToId sec) (t, m, sm) ls) = (m, sm)"
  by (induction ls arbitrary: t m sm) (simp_all add: lineStep_def)

lemma processSections_missing_unchanged:
  "processSections nameToId lbs t m secs = Inr (rs, t', m') \<Longrightarrow>
   \<forall>sec b. map_of lbs sec = Some b \<longrightarrow> (\<forall>l\<in>set b. lineType l = LineCard \<longrightarrow> lineDeficit l = None) \<Longrightarrow>
   m' = m"
proof (induction secs arbitrary: t m rs)
  case Nil
  then show ?case by simp
next
  case (Cons sec secs)
  from Cons.prems(1) obtain b where b: "map_of lbs sec = Some b"
    by (auto split: option.splits)
  obtain t1 m1 sm1 where f: "foldl (lineStep nameToId sec) (t, m, []) b = (t1, m1, sm1)"
    by (cases "foldl (lineStep nameToId sec) (t, m, []) b") auto
  from Cons.prems(2) b have "\<forall>l\<in>set b. lineType l = LineCard \<longrightarrow> lineDeficit l = None"
    by blast
  from pass_no_deficit [OF this, of nameToId sec t m "[]"] f have m1: "m1 = m"
    by simp
  from Cons.prems(1) b f obtain rs' where "processSections nameToId lbs t1 m1 secs = Inr (rs', t', m')"
    by (auto split: sum.splits)
  from Cons.IH [OF this Cons.prems(2)] m1 show ?case by simp
qed

lemma processSections_results:
  "processSections nameToId lbs t m secs = Inr (rs, t', m') \<Longrightarrow> s \<in> set rs \<Longrightarrow>
   \<exists>sec b t0 m0. map_of lbs sec = Some b \<and>
     s = sectionSummary sec b
           (countOrZero (fst (foldl (lineStep nameToId sec) (t0, m0, []) b)) sec)
           (snd (snd (foldl (lineStep nameToId sec) (t0, m0, []) b)))"
proof (induction secs arbitrary: t m rs)
  case Nil
  then show ?case by simp
next
  case (Cons sec secs)
  from Cons.prems(1) obtain b where b: "map_of lbs sec = Some b"
    by (auto split: option.splits)
  obtain t1 m1 sm1 where f: "foldl (lineStep nameToId sec) (t, m, []) b = (t1, m1, sm1)"
    by (cases "foldl (lineStep nameToId sec) (t, m, []) b") auto
  from Cons.prems(1) b f obtain rs' where
    rest: "processSections nameToId lbs t1 m1 secs = Inr (rs', t', m')" and
    rs: "rs = sectionSummary sec b (countOrZero t1 sec) sm1 # rs'"
    by (auto split: sum.splits)
  show ?case
  proof (cases "s \<in> set rs'")
    case True
    from Cons.IH [OF rest True] show ?thesis .
  next
    case False
    with Cons.prems(2) rs have "s = sectionSummary sec b (countOrZero t1 sec) sm1" by simp
    with b f show ?thesis
      by (intro exI [of _ sec] exI [of _ b] exI [of _ t] exI [of _ m]) simp
  qed
qed

lemma map_of_pushLine:
  "map_of (pushLine s line lbs) =
     (map_of lbs)(s \<mapsto> (case map_of lbs s of None \<Rightarrow> [] | Some ls \<Rightarrow> ls) @ [line])"
  by (simp add: pushLine_def map_of_assign)

lemma groupLines_buckets:
  "\<forall>sec b. map_of lbs sec = Some b \<longrightarrow> set b \<subseteq> A \<Longrightarrow> set ls \<subseteq> A \<Longrightarrow>
   map_of (snd (groupLines idx cur secs lbs ls)) sec = Some b \<Longrightarrow> set b \<subseteq> A"
proof (induction ls arbitrary: idx cur secs lbs)
  case Nil
  then show ?case by simp
next
  case (Cons line ls)
  show ?case
  proof (cases "lineType line = LineSection")
    case True
    with Cons.prems(3) have
      "map_of (snd (groupLines (idx + 1) (sectionText line)
          ((if idx = 0 \<and> lineType line \<noteq> LineSection then secs @ [cur] else secs) @ [sectionText line])
          lbs ls)) sec = Some b"
      by (simp add: Let_def)
    from Cons.IH [OF Cons.prems(1) _ this] Cons.prems(2) show ?thesis by simp
  next
    case False
    with Cons.prems(3) have g:
      "map_of (snd (groupLines (idx + 1) cur
          (if idx = 0 \<and> lineType line \<noteq> LineSection then secs @ [cur] else secs)
          (pushLine cur line lbs) ls)) sec = Some b"
      by (simp add: Let_def)
    have "\<forall>sec b. map_of (pushLine cur line lbs) sec = Some b \<longrightarrow> set b \<subseteq> A"
      using Cons.prems(1,2) by (fastforce simp: map_of_pushLine split: option.splits if_splits)
    from Cons.IH [OF this _ g] Cons.prems(2) show ?thesis by simp
  qed
qed


lemma render_Inr:
  assumes "render nameToId U pf cd settings ws parsedLines isColl = Inr r"
  shows "\<exists>secs lbs totals.
           groupLines 0 (if isColl then ''Collection: '' else DEFAULT_SECTION_NAME) [] []
             parsedLines = (secs, lbs) \<and>
           processSections nameToId lbs (foldl (\<lambda>acc curr. assign curr 0 acc) [] secs) [] secs =
             Inr (sections r, totals, missingCardCounts r) \<and>
           buylist r = buildBuylist nameToId U pf cd settings (missingCardCounts r)"
  using assms unfolding render_def
  by (auto simp: Let_def split: prod.splits sum.splits if_splits)

lemma render_section_lines:
  assumes "render nameToId U pf cd settings ws parsedLines isColl = Inr r"
    and "s \<in> set (sections r)"
  shows "set (sectionLines s) \<subseteq> set parsedLines"
    and "\<exists>sec t0 m0.
           sectionName s = sec \<and>
           sectionTotalCount s =
             countOrZero (fst (foldl (lineStep nameToId sec) (t0, m0, []) (sectionLines s))) sec \<and>
           sectionMissingCardCounts s =
             snd (snd (foldl (lineStep nameToId sec) (t0, m0, []) (sectionLines s))) \<and>
           totalMissingCountInSection s =
             (if sectionMissingCardCounts s \<noteq> []
              then Some (sum_list (map snd (sectionMissingCardCounts s))) else None)"
proof -
  from render_Inr [OF assms(1)] obtain secs lbs totals where
    g: "groupLines 0 (if isColl then ''Collection: '' else DEFAULT_SECTION_NAME) [] []
          parsedLines = (secs, lbs)" and
    p: "processSections nameToId lbs (foldl (\<lambda>acc curr. assign curr 0 acc) [] secs) [] secs =
          Inr (sections r, totals, missingCardCounts r)"
    by blast
  from processSections_results [OF p assms(2)] obtain sec b t0 m0 where
    b: "map_of lbs sec = Some b" and
    s: "s = sectionSummary sec b
           (countOrZero (fst (foldl (lineStep nameToId sec) (t0, m0, []) b)) sec)
           (snd (snd (foldl (lineStep nameToId sec) (t0, m0, []) b)))"
    by blast
  from s have ls: "sectionLines s = b" by (simp add: sectionSummary_def)
  have "map_of (snd (groupLines 0 (if isColl then ''Collection: '' else DEFAULT_SECTION_NAME)
          [] [] parsedLines)) sec = Some b"
    using g b by simp
  from groupLines_buckets [OF _ _ this, of "set parsedLines"] ls
  show "set (sectionLines s) \<subseteq> set parsedLines" by simp
  from s show "\<exists>sec t0 m0.
           sectionName s = sec \<and>
           sectionTotalCount s =
             countOrZero (fst (foldl (lineStep nameToId sec) (t0, m0, []) (sectionLines s))) sec \<and>
           sectionMissingCardCounts s =
             snd (snd (foldl (lineStep nameToId sec) (t0, m0, []) (sectionLines s))) \<and>
           totalMissingCountInSection s =
             (if sectionMissingCardCounts s \<noteq> []
              then Some (sum_list (map snd (sectionMissingCardCounts s))) else None)"
    by (intro exI [of _ sec] exI [of _ t0] exI [of _ m0]) (simp add: sectionSummary_def)
qed

lemma render_no_deficit:
  assumes "render nameToId U pf cd settings ws parsedLines isColl = Inr r"
    and "\<forall>l\<in>set parsedLines. lineType l = LineCard \<longrightarrow> lineDeficit l = None"
  shows "missingCardCounts r = [] \<and> buylist r = None"
proof -
  from render_Inr [OF assms(1)] obtain secs lbs totals where
    g: "groupLines 0 (if isColl then ''Collection: '' else DEFAULT_SECTION_NAME) [] []
          parsedLines = (secs, lbs)" and
    p: "processSections nameToId lbs (foldl (\<lambda>acc curr. assign curr 0 acc) [] secs) [] secs =
          Inr (sections r, totals, missingCardCounts r)" and
    bl: "buylist r = buildBuylist nameToId U pf cd settings (missingCardCounts r)"
    by blast
  have "\<forall>sec b. map_of lbs sec = Some b \<longrightarrow>
          (\<forall>l\<in>set b. lineType l = LineCard \<longrightarrow> lineDeficit l = None)"
  proof (intro allI impI)
    fix sec b
    assume "map_of lbs sec = Some b"
    with g have "map_of (snd (groupLines 0
        (if isColl then ''Collection: '' else DEFAULT_SECTION_NAME) [] [] parsedLines)) sec = Some b"
      by simp
    from groupLines_buckets [OF _ _ this, of "set parsedLines"]
    have "set b \<subseteq> set parsedLines" by simp
    with assms(2) show "\<forall>l\<in>set b. lineType l = LineCard \<longrightarrow> lineDeficit l = None"
      by blast
  qed
  from processSections_missing_unchanged [OF p this] have "missingCardCounts r = []" .
  with bl show ?thesis by (simp add: buildBuylist_def)
qed

subsection \<open>The count fields of parsed and resolved lines\<close>

lemma countOrZero_nonneg:
  "\<forall>entry\<in>set cardCounts. 0 \<le> snd entry \<Longrightarrow> 0 \<le> countOrZero cardCounts k"
  by (auto simp: countOrZero_def split: option.splits dest!: map_of_SomeD)

lemma parseCard_shape:
  "(\<exists>es. parseCard nameToId cardCounts line = (emptyLine LineError)\<lparr>errors := Some es\<rparr>) \<or>
   (\<exists>n name cs es.
      parseCard nameToId cardCounts line =
        (emptyLine LineCard)\<lparr>cardCount := Some n,
          globalCount :=
            (if cardCounts \<noteq> [] then Num (countOrZero cardCounts (nameToId (Some name)))
             else Null),
          cardName := Some name, comments := Some cs, errors := Some es\<rparr>)"
  unfolding parseCard_def Let_def
  by (simp split: option.split prod.split split del: if_split) blast

lemma parseCard_count:
  "globalCount (parseCard nameToId cardCounts line) = Undefined \<and>
   lineType (parseCard nameToId cardCounts line) \<noteq> LineCard \<or>
   lineType (parseCard nameToId cardCounts line) = LineCard \<and>
   (globalCount (parseCard nameToId cardCounts line) = Null \<or>
    cardCounts \<noteq> [] \<and>
    (\<exists>k. globalCount (parseCard nameToId cardCounts line) = Num (countOrZero cardCounts k)))"
  using parseCard_shape [of nameToId cardCounts line]
  by (auto simp: emptyLine_def)

lemma parseLine_count:
  "globalCount (fst (parseLine nameToId cardCounts st line)) = Null \<and>
   lineType (fst (parseLine nameToId cardCounts st line)) = LineCard \<or>
   globalCount (fst (parseLine nameToId cardCounts st line)) = Undefined \<and>
   lineType (fst (parseLine nameToId cardCounts st line)) \<noteq> LineCard \<or>
   cardCounts \<noteq> [] \<and>
   (\<exists>k. globalCount (fst (parseLine nameToId cardCounts st line)) =
          Num (countOrZero cardCounts k))"
proof -
  consider "isBlank line" | "\<not> isBlank line" "isHeading line"
    | "\<not> isBlank line" "\<not> isHeading line" "isCommentLine line"
    | "\<not> isBlank line" "\<not> isHeading line" "\<not> isCommentLine line" "isNumber line"
    | "\<not> isBlank line" "\<not> isHeading line" "\<not> isCommentLine line" "\<not> isNumber line"
    by blast
  then show ?thesis
  proof cases
    case 5
    then have "fst (parseLine nameToId cardCounts st line) = parseCard nameToId cardCounts line"
      by (simp add: parseLine_def)
    with parseCard_count [of nameToId cardCounts line] show ?thesis
      by auto
  qed (simp_all add: parseLine_def emptyLine_def Let_def)
qed

lemma parseLinesFrom_all:
  "(\<And>st line. P (fst (parseLine nameToId cardCounts st line))) \<Longrightarrow>
   \<forall>l\<in>set (parseLinesFrom nameToId cardCounts st rawLines). P l"
  by (induction rawLines arbitrary: st) auto

lemma parseLines_empty_ledger:
  "\<forall>l\<in>set (parseLines nameToId rawLines []). globalCount l = Null \<or> globalCount l = Undefined"
  unfolding parseLines_def
proof (rule parseLinesFrom_all)
  fix st line
  show "globalCount (fst (parseLine nameToId [] st line)) = Null \<or>
        globalCount (fst (parseLine nameToId [] st line)) = Undefined"
    using parseLine_count [of nameToId "[]" st line] by auto
qed

lemma parseLines_wellFormed:
  assumes "\<forall>entry\<in>set cardCounts. 0 \<le> snd entry"
  shows "\<forall>l\<in>set (parseLines nameToId rawLines cardCounts). countsWellFormed l"
  unfolding parseLines_def
proof (rule parseLinesFrom_all)
  fix st line
  show "countsWellFormed (fst (parseLine nameToId cardCounts st line))"
    using parseLine_count [of nameToId cardCounts st line] countOrZero_nonneg [OF assms]
    by (auto simp: countsWellFormed_def)
qed

lemma resolveLine_cases:
  "resolveLine nameToId cardCounts fetched cd line = Inr (line', cd') \<Longrightarrow>
   line' = line \<or>
   (\<exists>name. line' = line\<lparr>cardName := name\<rparr> \<and> cardCounts = [] \<or>
            line' = line\<lparr>cardName := name,
                          globalCount := Num (countOrZero cardCounts (nameToId name))\<rparr>)"
  by (auto simp: resolveLine_def Let_def split: if_splits option.splits)

lemma resolveLines_all:
  "resolveLines nameToId cardCounts fetched cd ls = Inr (ls', cd') \<Longrightarrow>
   (\<And>line cd line' cd'. line \<in> set ls \<Longrightarrow>
      resolveLine nameToId cardCounts fetched cd line = Inr (line', cd') \<Longrightarrow> P line') \<Longrightarrow>
   \<forall>l'\<in>set ls'. P l'"
proof (induction ls arbitrary: cd ls')
  case Nil
  then show ?case by simp
next
  case (Cons l ls)
  from Cons.prems(1) obtain l1 cd1 rest where
    one: "resolveLine nameToId cardCounts fetched cd l = Inr (l1, cd1)" and
    more: "resolveLines nameToId cardCounts fetched cd1 ls = Inr (rest, cd')" and
    ls': "ls' = l1 # rest"
    by (auto split: sum.splits)
  from Cons.prems(2) [OF _ one] have "P l1" by simp
  moreover have "\<forall>l'\<in>set rest. P l'"
  proof (rule Cons.IH [OF more])
    fix line cd0 line' cd0'
    assume "line \<in> set ls" and "resolveLine nameToId cardCounts fetched cd0 line = Inr (line', cd0')"
    then show "P line'" using Cons.prems(2) [of line cd0 line' cd0'] by simp
  qed
  ultimately show ?case using ls' by simp
qed

lemma resolveLines_wellFormed:
  assumes "\<forall>entry\<in>set cardCounts. 0 \<le> snd entry"
    and "resolveLines nameToId cardCounts fetched cd ls = Inr (ls', cd')"
    and "\<forall>l\<in>set ls. countsWellFormed l"
  shows "\<forall>l'\<in>set ls'. countsWellFormed l'"
proof (rule resolveLines_all [OF assms(2)])
  fix line cd0 line' cd0'
  assume "line \<in> set ls"
    and "resolveLine nameToId cardCounts fetched cd0 line = Inr (line', cd0')"
  with assms(3) resolveLine_cases [of nameToId cardCounts fetched cd0 line line' cd0']
    countOrZero_nonneg [OF assms(1)]
  show "countsWellFormed line'"
    by (auto simp: countsWellFormed_def)
qed

lemma resolveLines_empty_ledger:
  assumes "resolveLines nameToId [] fetched cd ls = Inr (ls', cd')"
    and "\<forall>l\<in>set ls. globalCount l = Null \<or> globalCount l = Undefined"
  shows "\<forall>l'\<in>set ls'. globalCount l' = Null \<or> globalCount l' = Undefined"
proof (rule resolveLines_all [OF assms(1)])
  fix line cd0 line' cd0'
  assume "line \<in> set ls"
    and "resolveLine nameToId [] fetched cd0 line = Inr (line', cd0')"
  with assms(2) show "globalCount line' = Null \<or> globalCount line' = Undefined"
    by (auto simp: resolveLine_def Let_def split: if_splits option.splits)
qed

lemma resolveLines_types:
  assumes "resolveLines nameToId cardCounts fetched cd ls = Inr (ls', cd')"
    and "\<forall>l\<in>set ls. lineType l = LineCard \<longrightarrow> globalCount l = Null"
    and "cardCounts = []"
  shows "\<forall>l'\<in>set ls'. lineType l' = LineCard \<longrightarrow> globalCount l' = Null"
proof (rule resolveLines_all [OF assms(1)])
  fix line cd0 line' cd0'
  assume "line \<in> set ls"
    and "resolveLine nameToId cardCounts fetched cd0 line = Inr (line', cd0')"
  with assms(2,3) show "lineType line' = LineCard \<longrightarrow> globalCount line' = Null"
    by (auto simp: resolveLine_def Let_def split: if_splits option.splits)
qed

lemma deficit_tracked:
  "globalCount l = Num owned \<Longrightarrow> 0 \<le> owned \<Longrightarrow>
   (lineDeficit l \<noteq> None) = (lineCardCount l > owned) \<and>
   deficitOf l = max 0 (lineCardCount l - owned)"
  by (auto simp: lineDeficit_def deficitOf_def lineGlobalCount_def)

lemma deficit_wellFormed:
  "countsWellFormed l \<Longrightarrow> lineType l = LineCard \<Longrightarrow> deficitOf l = specDeficit l"
  by (auto simp: countsWellFormed_def lineDeficit_def deficitOf_def lineGlobalCount_def
      specDeficit_def split: countField.splits)

lemma deficit_Null: "globalCount l = Null \<Longrightarrow> lineDeficit l = None"
  by (simp add: lineDeficit_def lineGlobalCount_def)

lemma entry_lines_wellFormed:
  assumes "\<forall>entry\<in>set cardCounts. 0 \<le> snd entry"
    and "renderDecklist nameToId U pf source cardCounts settings ws cd = Inr r \<or>
         renderCollection nameToId U pf source cardCounts settings ws fetched = Inr r"
    and "s \<in> set (sections r)"
  shows "\<forall>l\<in>set (sectionLines s). countsWellFormed l"
proof -
  let ?P = "parseLines nameToId (js_split (CHR 0x0A) source) cardCounts"
  from assms(2) obtain cd0 ls isColl where
    run: "render nameToId U pf cd0 settings ws ls isColl = Inr r" and
    wf: "\<forall>l\<in>set ls. countsWellFormed l"
  proof
    assume "renderDecklist nameToId U pf source cardCounts settings ws cd = Inr r"
    then have "render nameToId U pf cd settings ws ?P False = Inr r"
      by (simp add: renderDecklist_def)
    with parseLines_wellFormed [OF assms(1)] that show ?thesis by blast
  next
    assume "renderCollection nameToId U pf source cardCounts settings ws fetched = Inr r"
    then obtain ls cd0 where
      res: "resolveLines nameToId cardCounts fetched [] ?P = Inr (ls, cd0)" and
      run: "render nameToId U pf cd0 settings ws ls True = Inr r"
      by (auto simp: renderCollection_def split: sum.splits)
    from resolveLines_wellFormed [OF assms(1) res] parseLines_wellFormed [OF assms(1)]
    have "\<forall>l\<in>set ls. countsWellFormed l" by blast
    with run that show ?thesis by blast
  qed
  from render_section_lines(1) [OF run assms(3)] wf show ?thesis by blast
qed

lemma sum_list_cong_filter:
  "(\<And>x. x \<in> set xs \<Longrightarrow> P x \<Longrightarrow> f x = g x) \<Longrightarrow>
   sum_list (map f (filter P xs)) = sum_list (map g (filter P xs))"
  by (induction xs) auto

subsection \<open>The two example runs\<close>

lemma exampleDeck_value:
  "exampleDeck =
     Inr \<lparr>sections =
            [\<lparr>sectionName = ''Sideboard:'',
              sectionLines =
                [\<lparr>lineType = LineCard, cardCount = Some 2, globalCount = Num 1,
                  cardName = Some ''Negate'', cardNumber = None, cardSetCode = None,
                  comments = Some [], errors = Some [], lineText = None\<rparr>,
                 \<lparr>lineType = LineCard, cardCount = Some 3, globalCount = Num 1,
                  cardName = Some ''Negate'', cardNumber = None, cardSetCode = None,
                  comments = Some [], errors = Some [], lineText = None\<rparr>,
                 \<lparr>lineType = LineCard, cardCount = Some 1, globalCount = Num 0,
                  cardName = Some ''Shock'', cardNumber = None, cardSetCode = None,
                  comments = Some [], errors = Some [], lineText = None\<rparr>,
                 \<lparr>lineType = LineCard, cardCount = Some 1, globalCount = Num 4,
                  cardName = Some ''Opt'', cardNumber = None, cardSetCode = None,
                  comments = Some [], errors = Some [], lineText = None\<rparr>],
              sectionTotalCount = 7,
              sectionMissingCardCounts = [(''Negate'', 3), (''Shock'', 1)],
              totalMissingCountInSection = Some 4, totalCardsOwned = Some 3\<rparr>],
          sectionTotalCounts = [(''Sideboard:'', 7)],
          missingCardCounts = [(''Negate'', 3), (''Shock'', 1)],
          buylist =
            Some \<lparr>buylistLines = [(3, ''Negate''), (1, ''Shock'')],
                  totalCostOfBuylist = 9 / 2, buylistCardCounts = 4\<rparr>,
          syncLink = None\<rparr>"
  unfolding exampleDeck_def
  by (simp add: parse_defs render_defs example_defs)

lemma exampleNoLedger_value:
  "exampleNoLedger =
     Inr \<lparr>sections =
            [\<lparr>sectionName = ''Deck:'',
              sectionLines =
                [\<lparr>lineType = LineCard, cardCount = Some 4, globalCount = Null,
                  cardName = Some ''Lightning Bolt'', cardNumber = None, cardSetCode = None,
                  comments = Some [], errors = Some [], lineText = None\<rparr>],
              sectionTotalCount = 4, sectionMissingCardCounts = [],
              totalMissingCountInSection = None, totalCardsOwned = None\<rparr>],
          sectionTotalCounts = [(''Deck:'', 4)], missingCardCounts = [],
          buylist = None, syncLink = None\<rparr>"
  unfolding exampleNoLedger_def
  by (simp add: parse_defs render_defs example_defs)

text \<open>
  C1. The ledger holds no negative count, as the specification's data model says. Then
  in every section of a decklist or collection render, a card line with tracking
  enabled (its \<open>globalCount\<close> is a number \<open>owned\<close>) registers a deficit exactly when
  its count exceeds \<open>owned\<close>, and the amount is \<open>max(0, count - owned)\<close>; the sum of
  the section's missing-card map, which is the section's total missing count when the
  map is not empty, is the sum of the deficits of the section's card lines; and the
  entry of a card id in that map is the sum of the deficits of the lines with that
  id, so repeated lines accumulate.
\<close>

theorem section_missing_is_sum_of_deficits:
  assumes ledger: "\<forall>entry\<in>set cardCounts. 0 \<le> snd entry"
    and run: "renderDecklist nameToId U pf source cardCounts settings ws cd = Inr r \<or>
              renderCollection nameToId U pf source cardCounts settings ws fetched = Inr r"
    and sec: "s \<in> set (sections r)"
  shows "(\<forall>l\<in>set (sectionLines s). lineType l = LineCard \<longrightarrow>
            (\<forall>owned. globalCount l = Num owned \<longrightarrow>
               (lineDeficit l \<noteq> None) = (lineCardCount l > owned) \<and>
               deficitOf l = max 0 (lineCardCount l - owned))) \<and>
         sum_list (map snd (sectionMissingCardCounts s)) =
           (\<Sum>l\<leftarrow>filter (\<lambda>l. lineType l = LineCard) (sectionLines s). specDeficit l) \<and>
         (sectionMissingCardCounts s \<noteq> [] \<longrightarrow>
            totalMissingCountInSection s =
              Some (\<Sum>l\<leftarrow>filter (\<lambda>l. lineType l = LineCard) (sectionLines s). specDeficit l)) \<and>
         (\<forall>cardId. countOrZero (sectionMissingCardCounts s) cardId =
            (\<Sum>l\<leftarrow>filter (\<lambda>l. lineType l = LineCard \<and> nameToId (cardName l) = cardId)
                    (sectionLines s). specDeficit l))"
proof -
  have wf: "\<forall>l\<in>set (sectionLines s). countsWellFormed l"
    using entry_lines_wellFormed [OF ledger run sec] .
  from run obtain cd0 ls isColl where
    rend: "render nameToId U pf cd0 settings ws ls isColl = Inr r"
    by (auto simp: renderDecklist_def renderCollection_def split: sum.splits)
  from render_section_lines(2) [OF rend sec] obtain sn t0 m0 where
    miss: "sectionMissingCardCounts s =
             snd (snd (foldl (lineStep nameToId sn) (t0, m0, []) (sectionLines s)))" and
    tot: "totalMissingCountInSection s =
             (if sectionMissingCardCounts s \<noteq> []
              then Some (sum_list (map snd (sectionMissingCardCounts s))) else None)"
    by blast
  have per_line: "\<forall>l\<in>set (sectionLines s). lineType l = LineCard \<longrightarrow>
            (\<forall>owned. globalCount l = Num owned \<longrightarrow>
               (lineDeficit l \<noteq> None) = (lineCardCount l > owned) \<and>
               deficitOf l = max 0 (lineCardCount l - owned))"
  proof (intro ballI impI allI)
    fix l owned
    assume "l \<in> set (sectionLines s)" "lineType l = LineCard" "globalCount l = Num owned"
    with wf have "0 \<le> owned" by (auto simp: countsWellFormed_def)
    with \<open>globalCount l = Num owned\<close> show
      "(lineDeficit l \<noteq> None) = (lineCardCount l > owned) \<and>
       deficitOf l = max 0 (lineCardCount l - owned)"
      by (rule deficit_tracked)
  qed
  have total: "sum_list (map snd (sectionMissingCardCounts s)) =
      (\<Sum>l\<leftarrow>filter (\<lambda>l. lineType l = LineCard) (sectionLines s). specDeficit l)"
  proof -
    have "(\<Sum>l\<leftarrow>filter (\<lambda>l. lineType l = LineCard) (sectionLines s). deficitOf l) =
          (\<Sum>l\<leftarrow>filter (\<lambda>l. lineType l = LineCard) (sectionLines s). specDeficit l)"
      by (rule sum_list_cong_filter) (use wf in \<open>simp add: deficit_wellFormed\<close>)
    then show ?thesis unfolding miss pass_section_sum by simp
  qed
  have per_id: "countOrZero (sectionMissingCardCounts s) cardId =
      (\<Sum>l\<leftarrow>filter (\<lambda>l. lineType l = LineCard \<and> nameToId (cardName l) = cardId)
              (sectionLines s). specDeficit l)" for cardId
  proof -
    have "(\<Sum>l\<leftarrow>filter (\<lambda>l. lineType l = LineCard \<and> nameToId (cardName l) = cardId)
              (sectionLines s). deficitOf l) =
          (\<Sum>l\<leftarrow>filter (\<lambda>l. lineType l = LineCard \<and> nameToId (cardName l) = cardId)
              (sectionLines s). specDeficit l)"
      by (rule sum_list_cong_filter) (use wf in \<open>simp add: deficit_wellFormed\<close>)
    moreover have "countOrZero [] cardId = 0" by (simp add: countOrZero_def)
    ultimately show ?thesis unfolding miss pass_section_id by simp
  qed
  from total tot have tot': "sectionMissingCardCounts s \<noteq> [] \<longrightarrow>
            totalMissingCountInSection s =
              Some (\<Sum>l\<leftarrow>filter (\<lambda>l. lineType l = LineCard) (sectionLines s). specDeficit l)"
    by simp
  from per_line total tot' per_id show ?thesis by blast
qed

theorem section_missing_is_sum_of_deficits_witness:
  "sum_list (map snd (sectionMissingCardCounts (hd (sections (projr exampleDeck))))) = 4 \<and>
   (\<Sum>l\<leftarrow>filter (\<lambda>l. lineType l = LineCard) (sectionLines (hd (sections (projr exampleDeck)))).
      specDeficit l) = 4 \<and>
   totalMissingCountInSection (hd (sections (projr exampleDeck))) = Some 4 \<and>
   countOrZero (sectionMissingCardCounts (hd (sections (projr exampleDeck)))) ''Negate'' = 3 \<and>
   (\<Sum>l\<leftarrow>filter (\<lambda>l. lineType l = LineCard \<and> exampleNameToId (cardName l) = ''Negate'')
           (sectionLines (hd (sections (projr exampleDeck)))). specDeficit l) = 3"
proof -
  have ledger: "\<forall>entry\<in>set [(''Negate'', 1), (''Shock'', 0), (''Opt'', 4)]. (0::int) \<le> snd entry"
    by simp
  have run: "renderDecklist exampleNameToId ''unknown'' exampleParseFloat
       ''Sideboard:\<newline>2 Negate\<newline>3 Negate\<newline>1 Shock\<newline>1 Opt''
       [(''Negate'', 1), (''Shock'', 0), (''Opt'', 4)] exampleSettings False
       [(''Negate'', Some (exampleCard ''Negate'' (Some ''1.50'')))] = Inr (projr exampleDeck) \<or>
     renderCollection exampleNameToId ''unknown'' exampleParseFloat
       ''Sideboard:\<newline>2 Negate\<newline>3 Negate\<newline>1 Shock\<newline>1 Opt''
       [(''Negate'', 1), (''Shock'', 0), (''Opt'', 4)] exampleSettings False [] =
       Inr (projr exampleDeck)"
    unfolding exampleDeck_def [symmetric] by (simp add: exampleDeck_value)
  have sec: "hd (sections (projr exampleDeck)) \<in> set (sections (projr exampleDeck))"
    by (simp add: exampleDeck_value)
  note all = section_missing_is_sum_of_deficits [OF ledger run sec]
  have a: "sum_list (map snd (sectionMissingCardCounts (hd (sections (projr exampleDeck))))) = 4"
    by (simp add: exampleDeck_value)
  have b: "countOrZero (sectionMissingCardCounts (hd (sections (projr exampleDeck)))) ''Negate'' = 3"
    by (simp add: exampleDeck_value countOrZero_def)
  have c: "sectionMissingCardCounts (hd (sections (projr exampleDeck))) \<noteq> []"
    by (simp add: exampleDeck_value)
  from all [THEN conjunct2, THEN conjunct1] a
  have d: "(\<Sum>l\<leftarrow>filter (\<lambda>l. lineType l = LineCard)
              (sectionLines (hd (sections (projr exampleDeck)))). specDeficit l) = 4"
    by simp
  from all [THEN conjunct2, THEN conjunct2, THEN conjunct1, THEN mp, OF c] d
  have e: "totalMissingCountInSection (hd (sections (projr exampleDeck))) = Some 4"
    by simp
  from all [THEN conjunct2, THEN conjunct2, THEN conjunct2, THEN spec, of "''Negate''"] b
  have f: "(\<Sum>l\<leftarrow>filter (\<lambda>l. lineType l = LineCard \<and> exampleNameToId (cardName l) = ''Negate'')
           (sectionLines (hd (sections (projr exampleDeck)))). specDeficit l) = 3"
    by simp
  from a d e b f show ?thesis by blast
qed

text \<open>
  C3. With the empty ledger no line of a parse has a numeric \<open>globalCount\<close>; and
  when a decklist or collection render with the empty ledger returns, no line of any
  of its sections has one, its global missing-card map is empty and it builds no
  buylist.
\<close>

theorem empty_ledger_no_global_count:
  "(\<forall>l\<in>set (parseLines nameToId rawLines []). \<forall>owned. globalCount l \<noteq> Num owned) \<and>
   (\<forall>r. renderDecklist nameToId U pf source [] settings ws cd = Inr r \<or>
         renderCollection nameToId U pf source [] settings ws fetched = Inr r \<longrightarrow>
         (\<forall>s\<in>set (sections r). \<forall>l\<in>set (sectionLines s). \<forall>owned. globalCount l \<noteq> Num owned) \<and>
         missingCardCounts r = [] \<and> buylist r = None)"
proof (intro conjI allI impI)
  show "\<forall>l\<in>set (parseLines nameToId rawLines []). \<forall>owned. globalCount l \<noteq> Num owned"
    using parseLines_empty_ledger [of nameToId rawLines] by auto
next
  fix r
  assume run: "renderDecklist nameToId U pf source [] settings ws cd = Inr r \<or>
               renderCollection nameToId U pf source [] settings ws fetched = Inr r"
  let ?P = "parseLines nameToId (js_split (CHR 0x0A) source) []"
  have "\<exists>cd0 ls isColl. render nameToId U pf cd0 settings ws ls isColl = Inr r \<and>
          (\<forall>l\<in>set ls. globalCount l = Null \<or> globalCount l = Undefined) \<and>
          (\<forall>l\<in>set ls. lineType l = LineCard \<longrightarrow> globalCount l = Null)"
    using run
  proof
    assume "renderDecklist nameToId U pf source [] settings ws cd = Inr r"
    then have "render nameToId U pf cd settings ws ?P False = Inr r"
      by (simp add: renderDecklist_def)
    moreover have "\<forall>l\<in>set ?P. globalCount l = Null \<or> globalCount l = Undefined"
      by (rule parseLines_empty_ledger)
    moreover have "\<forall>l\<in>set ?P. lineType l = LineCard \<longrightarrow> globalCount l = Null"
      unfolding parseLines_def
      by (rule parseLinesFrom_all) (use parseLine_count [of nameToId "[]"] in auto)
    ultimately show ?thesis by blast
  next
    assume "renderCollection nameToId U pf source [] settings ws fetched = Inr r"
    then obtain ls cd0 where
      res: "resolveLines nameToId [] fetched [] ?P = Inr (ls, cd0)" and
      rend: "render nameToId U pf cd0 settings ws ls True = Inr r"
      by (auto simp: renderCollection_def split: sum.splits)
    have "\<forall>l\<in>set ?P. lineType l = LineCard \<longrightarrow> globalCount l = Null"
      unfolding parseLines_def
      by (rule parseLinesFrom_all) (use parseLine_count [of nameToId "[]"] in auto)
    from resolveLines_types [OF res this]
    have "\<forall>l\<in>set ls. lineType l = LineCard \<longrightarrow> globalCount l = Null" by simp
    moreover from resolveLines_empty_ledger [OF res parseLines_empty_ledger]
    have "\<forall>l\<in>set ls. globalCount l = Null \<or> globalCount l = Undefined" .
    ultimately show ?thesis using rend by blast
  qed
  then obtain cd0 ls isColl where
    rend: "render nameToId U pf cd0 settings ws ls isColl = Inr r" and
    nonum: "\<forall>l\<in>set ls. globalCount l = Null \<or> globalCount l = Undefined" and
    cards: "\<forall>l\<in>set ls. lineType l = LineCard \<longrightarrow> globalCount l = Null"
    by blast
  show "\<forall>s\<in>set (sections r). \<forall>l\<in>set (sectionLines s). \<forall>owned. globalCount l \<noteq> Num owned"
  proof (intro ballI allI)
    fix s l owned
    assume "s \<in> set (sections r)" and "l \<in> set (sectionLines s)"
    with render_section_lines(1) [OF rend] have "l \<in> set ls" by blast
    with nonum show "globalCount l \<noteq> Num owned" by auto
  qed
  from cards have "\<forall>l\<in>set ls. lineType l = LineCard \<longrightarrow> lineDeficit l = None"
    by (simp add: deficit_Null)
  from render_no_deficit [OF rend this]
  show "missingCardCounts r = []" and "buylist r = None" by simp_all
qed

theorem empty_ledger_no_global_count_witness:
  "map globalCount (parseLines exampleNameToId [''4 Lightning Bolt'', ''5''] []) = [Null, Null] \<and>
   missingCardCounts (projr exampleNoLedger) = [] \<and> buylist (projr exampleNoLedger) = None"
proof -
  have run: "renderDecklist exampleNameToId ''unknown'' exampleParseFloat ''4 Lightning Bolt'' []
       exampleSettings False [] = Inr (projr exampleNoLedger) \<or>
     renderCollection exampleNameToId ''unknown'' exampleParseFloat ''4 Lightning Bolt'' []
       exampleSettings False [] = Inr (projr exampleNoLedger)"
    unfolding exampleNoLedger_def [symmetric] by (simp add: exampleNoLedger_value)
  note all = empty_ledger_no_global_count
    [of exampleNameToId "[''4 Lightning Bolt'', ''5'']" "''unknown''" exampleParseFloat
        "''4 Lightning Bolt''" exampleSettings False "[]" "[]"]
  from all [THEN conjunct2, THEN spec, THEN mp, OF run]
  have "missingCardCounts (projr exampleNoLedger) = [] \<and> buylist (projr exampleNoLedger) = None"
    by blast
  moreover have
    "map globalCount (parseLines exampleNameToId [''4 Lightning Bolt'', ''5''] []) = [Null, Null]"
    by (simp add: parse_defs)
  ultimately show ?thesis by blast
qed

subsection \<open>The total count of a section\<close>

lemma pass_total_other:
  "k \<noteq> sec \<Longrightarrow>
   countOrZero (fst (foldl (lineStep nameToId sec) (t, m, sm) ls)) k = countOrZero t k"
  by (induction ls arbitrary: t m sm) (simp_all add: lineStep_def countOrZero_addCount)

lemma processSections_names:
  "processSections nameToId lbs t m secs = Inr (rs, t', m') \<Longrightarrow> map sectionName rs = secs"
proof (induction secs arbitrary: t m rs)
  case Nil
  then show ?case by simp
next
  case (Cons sec secs)
  from Cons.prems obtain b where b: "map_of lbs sec = Some b"
    by (auto split: option.splits)
  obtain t1 m1 sm1 where f: "foldl (lineStep nameToId sec) (t, m, []) b = (t1, m1, sm1)"
    by (cases "foldl (lineStep nameToId sec) (t, m, []) b") auto
  from Cons.prems b f obtain rs' where
    rest: "processSections nameToId lbs t1 m1 secs = Inr (rs', t', m')" and
    rs: "rs = sectionSummary sec b (countOrZero t1 sec) sm1 # rs'"
    by (auto split: sum.splits)
  from Cons.IH [OF rest] rs show ?case by (simp add: sectionSummary_def)
qed

lemma processSections_totals:
  "processSections nameToId lbs t m secs = Inr (rs, t', m') \<Longrightarrow> distinct secs \<Longrightarrow>
   s \<in> set rs \<Longrightarrow>
   sectionTotalCount s =
     countOrZero t (sectionName s) +
     (\<Sum>l\<leftarrow>filter (\<lambda>l. lineType l = LineCard) (sectionLines s). lineCardCount l)"
proof (induction secs arbitrary: t m rs)
  case Nil
  then show ?case by simp
next
  case (Cons sec secs)
  from Cons.prems(1) obtain b where b: "map_of lbs sec = Some b"
    by (auto split: option.splits)
  obtain t1 m1 sm1 where f: "foldl (lineStep nameToId sec) (t, m, []) b = (t1, m1, sm1)"
    by (cases "foldl (lineStep nameToId sec) (t, m, []) b") auto
  from Cons.prems(1) b f obtain rs' where
    rest: "processSections nameToId lbs t1 m1 secs = Inr (rs', t', m')" and
    rs: "rs = sectionSummary sec b (countOrZero t1 sec) sm1 # rs'"
    by (auto split: sum.splits)
  have t1: "t1 = fst (foldl (lineStep nameToId sec) (t, m, []) b)"
    using f by simp
  show ?case
  proof (cases "s \<in> set rs'")
    case True
    from Cons.prems(2) have d: "distinct secs" and notin: "sec \<notin> set secs" by simp_all
    from processSections_names [OF rest] True have "sectionName s \<in> set secs" by auto
    with notin have "sectionName s \<noteq> sec" by auto
    then have "countOrZero t1 (sectionName s) = countOrZero t (sectionName s)"
      unfolding t1 by (rule pass_total_other)
    with Cons.IH [OF rest d True] show ?thesis by simp
  next
    case False
    with Cons.prems(3) rs have "s = sectionSummary sec b (countOrZero t1 sec) sm1" by simp
    then have "sectionTotalCount s = countOrZero t1 sec" and "sectionName s = sec"
      and "sectionLines s = b"
      by (simp_all add: sectionSummary_def)
    then show ?thesis unfolding t1 by (simp add: pass_total)
  qed
qed

lemma countOrZero_zeros:
  "countOrZero (foldl (\<lambda>acc curr. assign curr 0 acc) acc0 secs) k =
     (if k \<in> set secs then 0 else countOrZero acc0 k)"
  by (induction secs arbitrary: acc0) (auto simp: countOrZero_def map_of_assign)

lemma section_total_without_repeated_header:
  assumes run: "render nameToId U pf cd settings ws parsedLines isColl = Inr r"
    and once: "distinct (map sectionName (sections r))"
    and sec: "s \<in> set (sections r)"
  shows "sectionTotalCount s =
     (\<Sum>l\<leftarrow>filter (\<lambda>l. lineType l = LineCard) (sectionLines s). lineCardCount l)"
proof -
  from render_Inr [OF run] obtain secs lbs totals where
    p: "processSections nameToId lbs (foldl (\<lambda>acc curr. assign curr 0 acc) [] secs) [] secs =
          Inr (sections r, totals, missingCardCounts r)"
    by blast
  from processSections_names [OF p] once have d: "distinct secs" by simp
  have "countOrZero (foldl (\<lambda>acc curr. assign curr 0 acc) [] secs) (sectionName s) = 0"
    by (simp add: countOrZero_zeros) (simp add: countOrZero_def)
  with processSections_totals [OF p d sec] show ?thesis by simp
qed

lemma number_line_emitted_with_count_one:
  "l \<in> set (parseLines nameToId rawLines cardCounts) \<Longrightarrow> cardNumber l \<noteq> None \<Longrightarrow>
   lineType l = LineCard \<and> cardCount l = Some 1 \<and> globalCount l = Null \<and> lineCardCount l = 1"
proof -
  have step: "cardNumber (fst (parseLine nameToId cardCounts st' l')) \<noteq> None \<longrightarrow>
      lineType (fst (parseLine nameToId cardCounts st' l')) = LineCard \<and>
      cardCount (fst (parseLine nameToId cardCounts st' l')) = Some 1 \<and>
      globalCount (fst (parseLine nameToId cardCounts st' l')) = Null \<and>
      lineCardCount (fst (parseLine nameToId cardCounts st' l')) = 1" for st' l'
    using parseCard_shape [of nameToId cardCounts l']
    by (auto simp: parseLine_def emptyLine_def lineCardCount_def Let_def)
  have "\<forall>l\<in>set (parseLinesFrom nameToId cardCounts [] rawLines).
      cardNumber l \<noteq> None \<longrightarrow>
        lineType l = LineCard \<and> cardCount l = Some 1 \<and> globalCount l = Null \<and>
        lineCardCount l = 1"
    by (rule parseLinesFrom_all) (rule step)
  then show "l \<in> set (parseLines nameToId rawLines cardCounts) \<Longrightarrow> cardNumber l \<noteq> None \<Longrightarrow>
   lineType l = LineCard \<and> cardCount l = Some 1 \<and> globalCount l = Null \<and> lineCardCount l = 1"
    unfolding parseLines_def by blast
qed

text \<open>
  C10. The claim says that a bare collector-number line is emitted with \<open>cardCount\<close>
  1 and \<open>globalCount\<close> \<open>null\<close>, and so adds exactly 1 to the total requested
  count of its section. The parser does emit it so (lemma
  \<open>number_line_emitted_with_count_one\<close>), and when no header text repeats the total
  of a section is the sum of the counts of its card lines (lemma
  \<open>section_total_without_repeated_header\<close>). When a header repeats, \<open>sections\<close>
  holds its name twice while \<open>linesBySection\<close> and \<open>sectionTotalCounts\<close> are
  keyed by the name: the lines under the name are walked once for each occurrence, and
  every walk adds to the same total. For the decklist \<open>Main\<close>, \<open>5\<close>, \<open>Main\<close>
  the one line \<open>5\<close> is emitted with count 1, render returns, and the total of
  \<open>Main\<close> ends at 2.
\<close>

theorem repeated_header_counts_number_line_twice:
  "parseLines exampleNameToId (js_split (CHR 0x0A) ''Main\<newline>5\<newline>Main'') [] =
     [\<lparr>lineType = LineSection, cardCount = None, globalCount = Undefined, cardName = None,
       cardNumber = None, cardSetCode = None, comments = None, errors = None,
       lineText = Some ''Main''\<rparr>,
      \<lparr>lineType = LineCard, cardCount = Some 1, globalCount = Null, cardName = None,
       cardNumber = Some ''5'', cardSetCode = Some [], comments = None, errors = None,
       lineText = Some ''5''\<rparr>,
      \<lparr>lineType = LineSection, cardCount = None, globalCount = Undefined, cardName = None,
       cardNumber = None, cardSetCode = None, comments = None, errors = None,
       lineText = Some ''Main''\<rparr>] \<and>
   map (\<lambda>s. (sectionName s, length (sectionLines s), sectionTotalCount s))
     (sections (projr (renderDecklist exampleNameToId ''unknown'' exampleParseFloat
        ''Main\<newline>5\<newline>Main'' [] exampleSettings False []))) =
     [(''Main'', 1, 1), (''Main'', 1, 2)] \<and>
   sectionTotalCounts (projr (renderDecklist exampleNameToId ''unknown'' exampleParseFloat
        ''Main\<newline>5\<newline>Main'' [] exampleSettings False [])) = [(''Main'', 2)] \<and>
   \<not> isl (renderDecklist exampleNameToId ''unknown'' exampleParseFloat
        ''Main\<newline>5\<newline>Main'' [] exampleSettings False [])"
  by (simp add: parse_defs render_defs example_defs)

subsection \<open>The buylist\<close>

lemma buylist_fold:
  assumes zero: "pf ''0.00'' = 0"
  shows "foldl (buylistStep nameToId U pf cd settings) (ls0, c0) entries =
     (ls0 @ map (\<lambda>(cardId, n). (n, buylistLabel U cd cardId)) entries,
      c0 + (\<Sum>(cardId, n)\<leftarrow>entries.
              case buylistUnitPrice nameToId cd settings cardId of
                None \<Rightarrow> 0
              | Some p \<Rightarrow> pf p * real_of_int n))"
proof (induction entries arbitrary: ls0 c0)
  case Nil
  then show ?case by simp
next
  case (Cons e entries)
  obtain cardId n where e: "e = (cardId, n)" by (cases e)
  have "buylistStep nameToId U pf cd settings (ls0, c0) (cardId, n) =
      (ls0 @ [(n, buylistLabel U cd cardId)],
       c0 + (case buylistUnitPrice nameToId cd settings cardId of
               None \<Rightarrow> 0
             | Some p \<Rightarrow> pf p * real_of_int n))"
    using zero
    by (simp add: buylistStep_def buylistLabel_def buylistUnitPrice_def Let_def
        split: option.splits)
  with Cons.IH e show ?case by (simp add: add.assoc)
qed

text \<open>
  C4. When render returns, it has built a buylist exactly when \<open>showBuylist\<close> is set
  and the global missing-card map is not empty. The buylist has one line for every
  entry of the map, in order, labelled with the name of the id's metadata or, without
  metadata, with the id (\<open>UNKNOWN_CARD\<close> for the empty id); its total cost is the sum
  over the entries of quantity times resolved unit price, where an entry without a
  resolved price adds nothing; and an id without metadata resolves no price. The
  assumption on \<open>parseFloat\<close> is that it reads \<open>"0.00"\<close> as zero.
\<close>

theorem buylist_only_when_shown_and_missing:
  assumes run: "render nameToId U pf cd settings ws parsedLines isColl = Inr r"
    and zero: "pf ''0.00'' = 0"
  shows "(buylist r \<noteq> None) = (showBuylist settings \<and> missingCardCounts r \<noteq> []) \<and>
    (\<forall>b. buylist r = Some b \<longrightarrow>
       totalCostOfBuylist b =
         (\<Sum>(cardId, n)\<leftarrow>missingCardCounts r.
            case buylistUnitPrice nameToId cd settings cardId of
              None \<Rightarrow> 0
            | Some p \<Rightarrow> pf p * real_of_int n) \<and>
       buylistLines b = map (\<lambda>(cardId, n). (n, buylistLabel U cd cardId)) (missingCardCounts r) \<and>
       buylistCardCounts b = sum_list (map snd (missingCardCounts r))) \<and>
    (\<forall>cardId. lookupData cd cardId = None \<longrightarrow>
       buylistUnitPrice nameToId cd settings cardId = None \<and>
       buylistLabel U cd cardId = (if cardId = [] then U else cardId))"
proof -
  from render_Inr [OF run] have
    bl: "buylist r = buildBuylist nameToId U pf cd settings (missingCardCounts r)"
    by blast
  have built: "buildBuylist nameToId U pf cd settings m =
      (if m \<noteq> [] \<and> showBuylist settings
       then Some \<lparr>buylistLines = map (\<lambda>(cardId, n). (n, buylistLabel U cd cardId)) m,
                  totalCostOfBuylist =
                    (\<Sum>(cardId, n)\<leftarrow>m.
                       case buylistUnitPrice nameToId cd settings cardId of
                         None \<Rightarrow> 0
                       | Some p \<Rightarrow> pf p * real_of_int n),
                  buylistCardCounts = sum_list (map snd m)\<rparr>
       else None)" for m
    using buylist_fold [of pf nameToId U cd settings "[]" 0 m, OF zero]
    by (simp add: buildBuylist_def)
  have "(buylist r \<noteq> None) = (showBuylist settings \<and> missingCardCounts r \<noteq> [])"
    unfolding bl built by auto
  moreover have "\<forall>b. buylist r = Some b \<longrightarrow>
       totalCostOfBuylist b =
         (\<Sum>(cardId, n)\<leftarrow>missingCardCounts r.
            case buylistUnitPrice nameToId cd settings cardId of
              None \<Rightarrow> 0
            | Some p \<Rightarrow> pf p * real_of_int n) \<and>
       buylistLines b = map (\<lambda>(cardId, n). (n, buylistLabel U cd cardId)) (missingCardCounts r) \<and>
       buylistCardCounts b = sum_list (map snd (missingCardCounts r))"
    unfolding bl built by (auto split: if_splits)
  moreover have "\<forall>cardId. lookupData cd cardId = None \<longrightarrow>
       buylistUnitPrice nameToId cd settings cardId = None \<and>
       buylistLabel U cd cardId = (if cardId = [] then U else cardId)"
    by (simp add: buylistUnitPrice_def buylistLabel_def)
  ultimately show ?thesis by blast
qed

theorem buylist_only_when_shown_and_missing_witness:
  "buylist (projr exampleDeck) \<noteq> None \<and>
   totalCostOfBuylist (the (buylist (projr exampleDeck))) = 9 / 2 \<and>
   buylistLines (the (buylist (projr exampleDeck))) = [(3, ''Negate''), (1, ''Shock'')] \<and>
   buylistUnitPrice exampleNameToId
     [(''Negate'', Some (exampleCard ''Negate'' (Some ''1.50'')))] exampleSettings ''Negate'' =
     Some ''1.50'' \<and>
   buylistUnitPrice exampleNameToId
     [(''Negate'', Some (exampleCard ''Negate'' (Some ''1.50'')))] exampleSettings ''Shock'' = None"
proof -
  have run: "render exampleNameToId ''unknown'' exampleParseFloat
      [(''Negate'', Some (exampleCard ''Negate'' (Some ''1.50'')))] exampleSettings False
      (parseLines exampleNameToId
         (js_split (CHR 0x0A)
            ''Sideboard:\<newline>2 Negate\<newline>3 Negate\<newline>1 Shock\<newline>1 Opt'')
         [(''Negate'', 1), (''Shock'', 0), (''Opt'', 4)]) False = Inr (projr exampleDeck)"
    unfolding renderDecklist_def [symmetric] exampleDeck_def [symmetric]
    by (simp add: exampleDeck_value)
  have zero: "exampleParseFloat ''0.00'' = 0"
    by (simp add: exampleParseFloat_def)
  note all = buylist_only_when_shown_and_missing [OF run zero]
  have shown: "showBuylist exampleSettings \<and> missingCardCounts (projr exampleDeck) \<noteq> []"
    by (simp add: exampleDeck_value exampleSettings_def)
  from all [THEN conjunct1] shown have a: "buylist (projr exampleDeck) \<noteq> None" by simp
  then have some: "buylist (projr exampleDeck) = Some (the (buylist (projr exampleDeck)))"
    by simp
  have m: "missingCardCounts (projr exampleDeck) = [(''Negate'', 3), (''Shock'', 1)]"
    by (simp add: exampleDeck_value)
  have p1: "buylistUnitPrice exampleNameToId
     [(''Negate'', Some (exampleCard ''Negate'' (Some ''1.50'')))] exampleSettings ''Negate'' =
     Some ''1.50''"
    and p2: "buylistUnitPrice exampleNameToId
     [(''Negate'', Some (exampleCard ''Negate'' (Some ''1.50'')))] exampleSettings ''Shock'' = None"
    and l1: "buylistLabel ''unknown''
     [(''Negate'', Some (exampleCard ''Negate'' (Some ''1.50'')))] ''Negate'' = ''Negate''"
    and l2: "buylistLabel ''unknown''
     [(''Negate'', Some (exampleCard ''Negate'' (Some ''1.50'')))] ''Shock'' = ''Shock''"
    by (simp_all add: buylistUnitPrice_def buylistLabel_def getCardPrice_def lookupData_def
        orNull_def example_defs)
  from all [THEN conjunct2, THEN conjunct1, THEN spec, THEN mp, OF some]
  have "totalCostOfBuylist (the (buylist (projr exampleDeck))) = 9 / 2 \<and>
        buylistLines (the (buylist (projr exampleDeck))) = [(3, ''Negate''), (1, ''Shock'')]"
    unfolding m by (simp add: p1 p2 l1 l2 exampleParseFloat_def)
  with a p1 p2 show ?thesis by blast
qed

subsection \<open>Collection mode\<close>

lemma lookupData_assign_None: "lookupData (assign k None cd) k = None"
  by (simp add: lookupData_def map_of_assign)

text \<open>
  What the resolution of \<open>renderCollection\<close> does with a collector-number line: a
  miss under a known set code gives the placeholder name and stores \<open>undefined\<close>
  under the id of that name; a line without a set code is skipped; a set code that is
  no key of the fetched metadata throws.
\<close>

lemma resolveLine_miss:
  assumes card: "lineType line = LineCard"
    and num: "cardNumber line = Some num" "num \<noteq> []"
    and code: "cardSetCode line = Some setCode" "setCode \<noteq> []"
    and known_set: "map_of fetched setCode = Some byNumber"
    and miss: "map_of byNumber num = None"
  shows "resolveLine nameToId cardCounts fetched cd line =
     Inr (if cardCounts \<noteq> []
          then line\<lparr>cardName := Some (notFoundName setCode num),
                    globalCount :=
                      Num (countOrZero cardCounts (nameToId (Some (notFoundName setCode num))))\<rparr>
          else line\<lparr>cardName := Some (notFoundName setCode num)\<rparr>,
          assign (nameToId (Some (notFoundName setCode num))) None cd)"
  using assms by (simp add: resolveLine_def truthy_def Let_def)

lemma assign_mem: "(k, v) \<in> set (assign k v m)"
  by (induction m) auto

lemma resolveLine_skips_empty_set_code:
  "cardSetCode line = Some [] \<or> cardSetCode line = None \<Longrightarrow>
   resolveLine nameToId cardCounts fetched cd line = Inr (line, cd)"
  by (auto simp: resolveLine_def truthy_def)

lemma resolveLine_unknown_set_throws:
  "lineType line = LineCard \<Longrightarrow> truthy (cardNumber line) \<Longrightarrow> cardSetCode line = Some setCode \<Longrightarrow>
   setCode \<noteq> [] \<Longrightarrow> map_of fetched setCode = None \<Longrightarrow>
   resolveLine nameToId cardCounts fetched cd line = Inl TypeError"
  by (simp add: resolveLine_def truthy_def)

text \<open>
  The sync link reads \<open>cardData.name\<close> and \<open>cardData.set\<close> for every key of
  \<open>cardDataByCardId\<close>, so a key that holds \<open>undefined\<close> makes a collection render
  with a workspace throw. Without a workspace the same render returns, and the
  placeholder line is counted. The last lemma is a header with no line under it.
\<close>

lemma syncCards_throws:
  "(k, None) \<in> set cd \<Longrightarrow> syncCards parsedLines cd = Inl TypeError"
  by (induction parsedLines cd rule: syncCards.induct) (auto split: sum.splits)

lemma render_throws_on_undefined:
  assumes "(k, None) \<in> set cd"
  shows "render nameToId U pf cd settings True parsedLines True = Inl TypeError"
proof -
  have e: "e = TypeError" for e :: jsError by (cases e) simp
  from syncCards_throws [OF assms] show ?thesis
    unfolding render_def
    by (auto simp: Let_def e split: prod.splits sum.splits)
qed

lemma miss_then_render_throws:
  assumes "lineType line = LineCard"
    and "cardNumber line = Some num" "num \<noteq> []"
    and "cardSetCode line = Some setCode" "setCode \<noteq> []"
    and "map_of fetched setCode = Some byNumber"
    and "map_of byNumber num = None"
    and res: "resolveLine nameToId cardCounts fetched cd line = Inr (line', cd')"
  shows "render nameToId U pf cd' settings True parsedLines True = Inl TypeError"
proof -
  from resolveLine_miss [OF assms(1-7), of nameToId cardCounts cd] res
  have "cd' = assign (nameToId (Some (notFoundName setCode num))) None cd"
    by simp
  then have "(nameToId (Some (notFoundName setCode num)), None) \<in> set cd'"
    by (simp add: assign_mem)
  then show ?thesis by (rule render_throws_on_undefined)
qed

lemma collection_miss_without_workspace:
  "renderCollection exampleNameToId ''unknown'' exampleParseFloat ''# set=war\<newline>5'' []
     exampleSettings False [(''war'', [])] =
   Inr \<lparr>sections =
          [\<lparr>sectionName = ''Collection: '',
            sectionLines =
              [\<lparr>lineType = LineComment, cardCount = None, globalCount = Undefined,
                cardName = None, cardNumber = None, cardSetCode = None,
                comments = Some [''# set=war''], errors = None, lineText = None\<rparr>,
               \<lparr>lineType = LineCard, cardCount = Some 1, globalCount = Null,
                cardName = Some ''Card not found (war/5)'', cardNumber = Some ''5'',
                cardSetCode = Some ''war'', comments = None, errors = None,
                lineText = Some ''5''\<rparr>],
            sectionTotalCount = 1, sectionMissingCardCounts = [],
            totalMissingCountInSection = None, totalCardsOwned = None\<rparr>],
        sectionTotalCounts = [(''Collection: '', 1)], missingCardCounts = [],
        buylist = None, syncLink = None\<rparr>"
  by (simp add: parse_defs render_defs example_defs)

lemma header_without_lines_throws:
  "renderDecklist exampleNameToId ''unknown'' exampleParseFloat ''Sideboard:'' []
     exampleSettings False [] = Inl TypeError"
  by (simp add: parse_defs render_defs example_defs)

text \<open>
  C9. The claim says that in collection mode a collector-number line whose set code
  and number have no metadata is processed without an error: it gets the placeholder
  name, resolves no price and is still counted. The resolution does give it the
  placeholder name, but it stores \<open>undefined\<close> under the id of that name, and the
  sync link, which render builds whenever it is given a workspace, reads the fields of
  that value. For the lines \<open># set=war\<close>, \<open>5\<close> with no metadata for (war, 5),
  the resolution returns the placeholder line and the render with a workspace throws
  a \<open>TypeError\<close>.
\<close>

theorem collection_miss_with_workspace_throws:
  "resolveLines exampleNameToId [] [(''war'', [])] []
     (parseLines exampleNameToId (js_split (CHR 0x0A) ''# set=war\<newline>5'') []) =
     Inr ([\<lparr>lineType = LineComment, cardCount = None, globalCount = Undefined,
             cardName = None, cardNumber = None, cardSetCode = None,
             comments = Some [''# set=war''], errors = None, lineText = None\<rparr>,
           \<lparr>lineType = LineCard, cardCount = Some 1, globalCount = Null,
             cardName = Some ''Card not found (war/5)'', cardNumber = Some ''5'',
             cardSetCode = Some ''war'', comments = None, errors = None,
             lineText = Some ''5''\<rparr>],
          [(''Card not found (war/5)'', None)]) \<and>
   renderCollection exampleNameToId ''unknown'' exampleParseFloat ''# set=war\<newline>5'' []
     exampleSettings True [(''war'', [])] = Inl TypeError"
  by (simp add: parse_defs render_defs example_defs)

end
